theory Spec2Isabelle
  imports Complex_Main "HOL-Library.Multiset" "HOL-Library.Product_Lexorder" "HOL-Library.Sublist"
begin

section \<open>Python values shared by all modules\<close>

text \<open>
  The exceptions of the Python runtime that the modelled code can raise. A function that
  can raise returns \<open>py_exc + 'a\<close>, with \<open>Inl\<close> for the exception.
\<close>

datatype py_exc = ImportError | NameError | TypeError | OverflowError | ValueError

text \<open>
  Python floats are modelled as reals: the arithmetic of the salary code (a sum, a halving,
  a multiplication by 1000, comparisons) is taken exactly. Truthiness of an optional
  number, as \<open>x or y\<close> tests it: \<open>None\<close> and zero are false.
\<close>

definition truthy_num :: "real option \<Rightarrow> bool" where
  "truthy_num v = (case v of None \<Rightarrow> False | Some x \<Rightarrow> x \<noteq> 0)"

definition py_or_num :: "real option \<Rightarrow> real option \<Rightarrow> real option" where
  "py_or_num a b = (if truthy_num a then a else b)"

subsection \<open>Strings\<close>

text \<open>
  A string is a list of characters with code points below 256. \<open>str.isspace\<close>,
  \<open>str.lower\<close>, \<open>str.strip\<close>, \<open>str.split(",")\<close>, \<open>str.replace\<close> of one
  character and the substring test \<open>a in b\<close> on such strings.
\<close>

definition is_space :: "char \<Rightarrow> bool" where
  "is_space c =
     (let n = (of_char c :: nat)
      in (9 \<le> n \<and> n \<le> 13) \<or> (28 \<le> n \<and> n \<le> 32) \<or> n = 133 \<or> n = 160)"

definition is_digit :: "char \<Rightarrow> bool" where
  "is_digit c = (let n = (of_char c :: nat) in 48 \<le> n \<and> n \<le> 57)"

definition lower_char :: "char \<Rightarrow> char" where
  "lower_char c =
     (let n = (of_char c :: nat)
      in if (65 \<le> n \<and> n \<le> 90) \<or> (192 \<le> n \<and> n \<le> 222 \<and> n \<noteq> 215)
         then char_of (n + 32) else c)"

definition lower :: "string \<Rightarrow> string" where
  "lower s = map lower_char s"

definition strip :: "string \<Rightarrow> string" where
  "strip s = rev (dropWhile is_space (rev (dropWhile is_space s)))"

fun split_on :: "char \<Rightarrow> string \<Rightarrow> string list" where
  "split_on sep [] = [[]]"
| "split_on sep (c # cs) =
     (if c = sep then [] # split_on sep cs
      else (case split_on sep cs of
              [] \<Rightarrow> [[c]]
            | p # ps \<Rightarrow> (c # p) # ps))"

definition replace_char :: "char \<Rightarrow> char \<Rightarrow> string \<Rightarrow> string" where
  "replace_char a b s = map (\<lambda>c. if c = a then b else c) s"

definition remove_char :: "char \<Rightarrow> string \<Rightarrow> string" where
  "remove_char a s = filter (\<lambda>c. c \<noteq> a) s"

definition contains :: "string \<Rightarrow> string \<Rightarrow> bool" where
  "contains hay needle = sublist needle hay"

text \<open>
  \<open>float(s)\<close> on the strings the salary parsers pass to it, which consist of digits and
  dots: the call succeeds when \<open>s\<close> has at least one digit and at most one dot, and
  raises \<open>ValueError\<close> (\<open>None\<close> here) otherwise.
\<close>

definition digit_val :: "char \<Rightarrow> nat" where
  "digit_val c = of_char c - 48"

definition dec_value :: "string \<Rightarrow> nat" where
  "dec_value ds = foldl (\<lambda>a c. 10 * a + digit_val c) 0 ds"

definition py_float :: "string \<Rightarrow> real option" where
  "py_float s =
     (let a = takeWhile is_digit s; r = dropWhile is_digit s
      in case r of
           [] \<Rightarrow> if a = [] then None else Some (real (dec_value a))
         | c # b \<Rightarrow>
             if c = CHR ''.'' \<and> list_all is_digit b \<and> (a \<noteq> [] \<or> b \<noteq> [])
             then Some (real (dec_value a) + real (dec_value b) / 10 ^ length b)
             else None)"

text \<open>
  \<open>xs.sort(key=f, reverse=True)\<close>: a stable sort into descending key order, which
  the runtime performs as a stable ascending sort of the reversed list, reversed again.
  \<open>xs[:n]\<close> keeps the first \<open>n\<close> elements, and for a negative \<open>n\<close> drops the last
  \<open>-n\<close>.
\<close>

definition py_sort_desc :: "('a \<Rightarrow> 'k::linorder) \<Rightarrow> 'a list \<Rightarrow> 'a list" where
  "py_sort_desc f xs = rev (sort_key f (rev xs))"

definition py_slice_to :: "int \<Rightarrow> 'a list \<Rightarrow> 'a list" where
  "py_slice_to n xs = (if 0 \<le> n then take (nat n) xs else take (length xs - nat (- n)) xs)"

text \<open>What a call does to the outside world, in order: log records and HTTP requests.\<close>

datatype pval = PStr string | PInt int

datatype event =
    LogWarning string
  | LogError string
  | LogInfo string
  | HttpGet string "(string \<times> pval) list"

text \<open>Reading a global name of a module: a name the module never binds raises.\<close>

definition lookup_global :: "(string \<times> 'v) list \<Rightarrow> string \<Rightarrow> py_exc + 'v" where
  "lookup_global g name = (case map_of g name of None \<Rightarrow> Inl NameError | Some v \<Rightarrow> Inr v)"

section \<open>utils.py: the Job record and the shared predicates\<close>

subsection \<open>Datetimes\<close>

text \<open>
  A \<open>datetime.datetime\<close>: its wall-clock value in microseconds since
  0001-01-01T00:00:00 and, for an aware value, its UTC offset in microseconds
  (\<open>None\<close> for a naive value). The representable range is year 1 to year 9999.
\<close>

record datetime =
  micros :: int
  utcoffset :: "int option"

definition day_us :: int where
  "day_us = 86400000000"

definition DT_MAX :: int where
  "DT_MAX = 3652059 * day_us - 1"

definition TD_MAX_DAYS :: int where
  "TD_MAX_DAYS = 999999999"

definition aware :: "datetime \<Rightarrow> bool" where
  "aware d = (utcoffset d \<noteq> None)"

definition utc_micros :: "datetime \<Rightarrow> int" where
  "utc_micros d = (case utcoffset d of None \<Rightarrow> micros d | Some off \<Rightarrow> micros d - off)"

text \<open>\<open>datetime.timedelta(days=n)\<close>: the day count is limited to nine digits.\<close>

definition timedelta_days :: "int \<Rightarrow> py_exc + int" where
  "timedelta_days n =
     (if n < - TD_MAX_DAYS \<or> TD_MAX_DAYS < n then Inl OverflowError else Inr (n * day_us))"

text \<open>\<open>d - delta\<close>: the wall-clock value moves, the offset stays; leaving the
  representable range raises.\<close>

definition dt_sub :: "datetime \<Rightarrow> int \<Rightarrow> py_exc + datetime" where
  "dt_sub d delta =
     (let m = micros d - delta
      in if m < 0 \<or> DT_MAX < m then Inl OverflowError else Inr (d\<lparr>micros := m\<rparr>))"

text \<open>\<open>a >= b\<close> on datetimes: two aware values compare by their UTC instants, two naive
  ones by their wall-clock values, and a naive value against an aware one raises.\<close>

definition dt_ge :: "datetime \<Rightarrow> datetime \<Rightarrow> py_exc + bool" where
  "dt_ge a b =
     (case (utcoffset a, utcoffset b) of
        (None, None) \<Rightarrow> Inr (micros b \<le> micros a)
      | (Some oa, Some ob) \<Rightarrow> Inr (micros b - ob \<le> micros a - oa)
      | _ \<Rightarrow> Inl TypeError)"

subsection \<open>Job\<close>

record job =
  title :: string
  company :: string
  location :: string
  publication_date :: datetime
  salary_min :: "real option"
  salary_max :: "real option"
  currency :: "string option"
  url :: string
  source :: string

definition average_salary :: "job \<Rightarrow> real option" where
  "average_salary j =
     (if salary_min j \<noteq> None \<and> salary_max j \<noteq> None
      then Some ((the (salary_min j) + the (salary_max j)) / 2)
      else py_or_num (salary_max j) (salary_min j))"

text \<open>\<open>is_recent\<close> reads the clock; the reading \<open>now\<close> (an aware UTC value) is a
  parameter.\<close>

definition is_recent :: "datetime \<Rightarrow> job \<Rightarrow> int \<Rightarrow> py_exc + bool" where
  "is_recent now j days =
     (case timedelta_days days of
        Inl e \<Rightarrow> Inl e
      | Inr delta \<Rightarrow>
          (case dt_sub now delta of
             Inl e \<Rightarrow> Inl e
           | Inr cutoff \<Rightarrow> dt_ge (publication_date j) cutoff))"

definition is_top_company :: "job \<Rightarrow> string list \<Rightarrow> bool" where
  "is_top_company j top_companies =
     (if top_companies = [] then False
      else (let company_lower = lower (company j)
            in list_ex (\<lambda>tc. contains company_lower (lower (strip tc))) top_companies))"

text \<open>
  The \<open>if / elif\<close> chain by which each adapter computes the average of the two bounds
  it has read, testing each bound with \<open>is not None\<close>.
\<close>

definition adapter_average :: "real option \<Rightarrow> real option \<Rightarrow> real option" where
  "adapter_average smin smax =
     (if smin \<noteq> None \<and> smax \<noteq> None then Some ((the smin + the smax) / 2)
      else if smax \<noteq> None then smax
      else if smin \<noteq> None then smin
      else None)"

definition sort_salary :: "job \<Rightarrow> real" where
  "sort_salary j = (case average_salary j of None \<Rightarrow> 0 | Some a \<Rightarrow> if a = 0 then 0 else a)"

text \<open>
  The scratch record each adapter builds to evaluate the filters before the other fields
  are known.
\<close>

definition dummy_job :: "datetime \<Rightarrow> string \<Rightarrow> job" where
  "dummy_job published src =
     \<lparr>title = [], company = [], location = [], publication_date = published,
      salary_min = None, salary_max = None, currency = None, url = [], source = src\<rparr>"

text \<open>\<open>a or b\<close> on optional strings, and \<open>d.get(k, default)\<close> for a key that may be
  missing.\<close>

definition or_str :: "string option \<Rightarrow> string option \<Rightarrow> string option" where
  "or_str a b = (if a \<noteq> None \<and> a \<noteq> Some [] then a else b)"

definition get_default :: "'a option \<Rightarrow> 'a \<Rightarrow> 'a" where
  "get_default v d = (case v of None \<Rightarrow> d | Some x \<Rightarrow> x)"

definition truthy_list :: "'a list option \<Rightarrow> bool" where
  "truthy_list v = (v \<noteq> None \<and> v \<noteq> Some [])"

section \<open>sources/remote\_ok.py\<close>

text \<open>
  A raw posting of the feed: the keys the adapter reads, each absent (\<open>None\<close>) or
  holding a value of its JSON type.
\<close>

record remote_ok_item =
  ro_date :: "string option"
  ro_publication_date :: "string option"
  ro_salary_min :: "real option"
  ro_salary_max :: "real option"
  ro_salary :: "string option"
  ro_company :: "string option"
  ro_position :: "string option"
  ro_location :: "string option"
  ro_url :: "string option"

text \<open>\<open>re.findall(r"\$([0-9,]+)", text)\<close>: at a dollar sign followed by at least one
  digit or comma the group is the longest such run, and the scan goes on after it.\<close>

definition digit_or_comma :: "char \<Rightarrow> bool" where
  "digit_or_comma c = (is_digit c \<or> c = CHR '','')"

function findall_dollar :: "string \<Rightarrow> string list" where
  "findall_dollar [] = []"
| "findall_dollar (c # cs) =
     (if c = CHR ''$'' \<and> takeWhile digit_or_comma cs \<noteq> []
      then takeWhile digit_or_comma cs # findall_dollar (dropWhile digit_or_comma cs)
      else findall_dollar cs)"
  by pat_completeness auto
termination
  by (relation "measure length") (auto simp: length_dropWhile_le less_Suc_eq_le)

fun floats_of :: "string list \<Rightarrow> py_exc + real list" where
  "floats_of [] = Inr []"
| "floats_of (s # ss) =
     (case py_float (remove_char CHR '','' s) of
        None \<Rightarrow> Inl ValueError
      | Some v \<Rightarrow> (case floats_of ss of Inl e \<Rightarrow> Inl e | Inr vs \<Rightarrow> Inr (v # vs)))"

definition remote_ok_parse_salary :: "string \<Rightarrow> py_exc + (real option \<times> real option)" where
  "remote_ok_parse_salary salary_text =
     (let matches = findall_dollar salary_text
      in if matches = [] then Inr (None, None)
         else (case floats_of matches of
                 Inl e \<Rightarrow> Inl e
               | Inr nums \<Rightarrow>
                   if 2 \<le> length nums then Inr (Some (nums ! 0), Some (nums ! 1))
                   else Inr (None, Some (nums ! 0))))"

text \<open>
  One pass of the loop body of \<open>fetch_jobs\<close>: \<open>Inr None\<close> when the item is skipped
  (\<open>continue\<close>), \<open>Inr (Some job)\<close> when a job is appended, \<open>Inl e\<close> when an exception
  leaves the loop. \<open>datetime.fromisoformat\<close> is a parameter: \<open>None\<close> is its
  \<open>ValueError\<close>, caught by the \<open>try\<close> around it.
\<close>

definition remote_ok_salaries :: "remote_ok_item \<Rightarrow> py_exc + (real option \<times> real option)" where
  "remote_ok_salaries item =
     (if ro_salary_min item = None \<and> ro_salary_max item = None
      then remote_ok_parse_salary (get_default (or_str (ro_salary item) (Some [])) [])
      else Inr (ro_salary_min item, ro_salary_max item))"

text \<open>The date string of an item: \<open>item.get("date") or item.get("publication_date") or ""\<close>,
  with every \<open>Z\<close> replaced by \<open>+00:00\<close>.\<close>

definition ro_date_norm :: "remote_ok_item \<Rightarrow> string" where
  "ro_date_norm item =
     concat (map (\<lambda>c. if c = CHR ''Z'' then ''+00:00'' else [c])
       (get_default (or_str (or_str (ro_date item) (ro_publication_date item)) (Some [])) []))"

definition remote_ok_process ::
  "(string \<Rightarrow> datetime option) \<Rightarrow> datetime \<Rightarrow> int \<Rightarrow> real \<Rightarrow> string list option \<Rightarrow>
   remote_ok_item \<Rightarrow> py_exc + job option" where
  "remote_ok_process fromisoformat now days min_salary top_companies item =
     (let date_norm = ro_date_norm item
      in case fromisoformat date_norm of
           None \<Rightarrow> Inr None
         | Some published \<Rightarrow>
             (case is_recent now (dummy_job published ''Remote OK'') days of
                Inl e \<Rightarrow> Inl e
              | Inr False \<Rightarrow> Inr None
              | Inr True \<Rightarrow>
                  (case remote_ok_salaries item of
                     Inl e \<Rightarrow> Inl e
                   | Inr (smin, smax) \<Rightarrow>
                       (let avg_salary = adapter_average smin smax
                        in if avg_salary = None \<or> the avg_salary < min_salary then Inr None
                           else (let comp = get_default (ro_company item) ''N/A''
                                 in if truthy_list top_companies \<and>
                                       \<not> is_top_company ((dummy_job published ''Remote OK'')\<lparr>company := comp\<rparr>)
                                            (the top_companies)
                                    then Inr None
                                    else Inr (Some
                                      \<lparr>title = get_default (ro_position item) [],
                                       company = comp,
                                       location = get_default (ro_location item) ''Remote'',
                                       publication_date = published,
                                       salary_min = smin, salary_max = smax,
                                       currency = Some ''USD'',
                                       url = get_default (ro_url item) [],
                                       source = ''Remote OK''\<rparr>))))))"

text \<open>
  The loop of \<open>fetch_jobs\<close> over the items, then the sort and the cut. The response is a
  parameter: \<open>None\<close> when the request, its status check or its decoding raised (the
  function logs and returns the empty list), else the decoded array, whose first entry
  is the legal notice that \<open>data[1:]\<close> leaves out.
\<close>

fun collect :: "('i \<Rightarrow> py_exc + job option) \<Rightarrow> 'i list \<Rightarrow> job list \<Rightarrow> py_exc + job list" where
  "collect f [] jobs = Inr jobs"
| "collect f (item # items) jobs =
     (case f item of
        Inl e \<Rightarrow> Inl e
      | Inr None \<Rightarrow> collect f items jobs
      | Inr (Some j) \<Rightarrow> collect f items (jobs @ [j]))"

definition remote_ok_fetch_jobs ::
  "remote_ok_item list option \<Rightarrow> (string \<Rightarrow> datetime option) \<Rightarrow> datetime \<Rightarrow> int \<Rightarrow> real \<Rightarrow>
   string list option \<Rightarrow> int \<Rightarrow> py_exc + job list" where
  "remote_ok_fetch_jobs response fromisoformat now days min_salary top_companies limit =
     (case response of
        None \<Rightarrow> Inr []
      | Some data \<Rightarrow>
          (case collect (remote_ok_process fromisoformat now days min_salary top_companies)
                  (drop 1 data) [] of
             Inl e \<Rightarrow> Inl e
           | Inr jobs \<Rightarrow> Inr (py_slice_to limit (py_sort_desc sort_salary jobs))))"

section \<open>sources/remotive.py\<close>

record remotive_item =
  rm_publication_date :: "string option"
  rm_company_name :: "string option"
  rm_salary :: "string option"
  rm_candidate_required_location :: "string option"
  rm_url :: "string option"
  rm_title :: "string option"

text \<open>
  One match of \<open>([0-9][0-9,]*\.?[0-9]*)k?\<close> at a digit, given the text after that
  digit: the rest of the group, whether the optional \<open>k\<close> matched, and the text after the
  match. Every part after the first digit may be empty, so the greedy choice always
  succeeds.
\<close>

definition remotive_match :: "string \<Rightarrow> string \<times> bool \<times> string" where
  "remotive_match cs =
     (let a = takeWhile digit_or_comma cs;
          r1 = dropWhile digit_or_comma cs;
          dot = (if r1 \<noteq> [] \<and> hd r1 = CHR ''.'' then ''.'' else []);
          r2 = (if r1 \<noteq> [] \<and> hd r1 = CHR ''.'' then tl r1 else r1);
          b = takeWhile is_digit r2;
          r3 = dropWhile is_digit r2;
          k = (r3 \<noteq> [] \<and> hd r3 = CHR ''k'')
      in (a @ dot @ b, k, if k then tl r3 else r3))"

lemma remotive_match_length: "length (snd (snd (remotive_match cs))) \<le> length cs"
proof -
  have a: "length (dropWhile digit_or_comma cs) \<le> length cs"
    by (rule length_dropWhile_le)
  have b: "length (dropWhile is_digit r) \<le> length r" for r
    by (rule length_dropWhile_le)
  have c: "length (tl r) \<le> length r" for r :: string
    by simp
  show ?thesis
    unfolding remotive_match_def Let_def snd_conv
    using a b [of "dropWhile digit_or_comma cs"] b [of "tl (dropWhile digit_or_comma cs)"]
      c [of "dropWhile digit_or_comma cs"]
      c [of "dropWhile is_digit (dropWhile digit_or_comma cs)"]
      c [of "dropWhile is_digit (tl (dropWhile digit_or_comma cs))"]
    by (auto split: if_splits)
qed

text \<open>The matches in scanning order, each with its group and whether its \<open>k\<close> matched;
  \<open>re.findall\<close> returns the groups.\<close>

function finditer_remotive :: "string \<Rightarrow> (string \<times> bool) list" where
  "finditer_remotive [] = []"
| "finditer_remotive (c # cs) =
     (if is_digit c
      then (c # fst (remotive_match cs), fst (snd (remotive_match cs)))
             # finditer_remotive (snd (snd (remotive_match cs)))
      else finditer_remotive cs)"
  by pat_completeness auto
termination
  by (relation "measure length") (auto simp: remotive_match_length less_Suc_eq_le)

definition findall_remotive :: "string \<Rightarrow> string list" where
  "findall_remotive s = map fst (finditer_remotive s)"

text \<open>The \<open>for m in matches\<close> loop of \<open>_parse_salary\<close>; \<open>low\<close> is the lower-cased
  text that \<open>re.search\<close> scans for the escaped token followed by \<open>k\<close>.\<close>

fun remotive_nums :: "string \<Rightarrow> string list \<Rightarrow> real list \<Rightarrow> py_exc + real list" where
  "remotive_nums low [] nums = Inr nums"
| "remotive_nums low (m # ms) nums =
     (if m = [] then remotive_nums low ms nums
      else (case py_float (remove_char CHR '','' m) of
              None \<Rightarrow> Inl ValueError
            | Some v \<Rightarrow>
                remotive_nums low ms
                  (nums @ [if contains low (m @ ''k'') then v * 1000 else v])))"

definition bounds_of :: "real list \<Rightarrow> real option \<times> real option" where
  "bounds_of nums =
     (if nums = [] then (None, None)
      else if 2 \<le> length nums then (Some (nums ! 0), Some (nums ! 1))
      else (None, Some (nums ! 0)))"

definition remotive_parse_salary :: "string \<Rightarrow> py_exc + (real option \<times> real option)" where
  "remotive_parse_salary salary_text =
     (let matches = findall_remotive (lower salary_text)
      in if matches = [] then Inr (None, None)
         else (case remotive_nums (lower salary_text) matches [] of
                 Inl e \<Rightarrow> Inl e
               | Inr nums \<Rightarrow> Inr (bounds_of nums)))"

definition remotive_process ::
  "(string \<Rightarrow> datetime option) \<Rightarrow> datetime \<Rightarrow> int \<Rightarrow> real \<Rightarrow> string list option \<Rightarrow>
   remotive_item \<Rightarrow> py_exc + job option" where
  "remotive_process fromisoformat now days min_salary top_companies item =
     (let date_str = get_default (or_str (rm_publication_date item) (Some [])) []
      in case fromisoformat date_str of
           None \<Rightarrow> Inr None
         | Some published \<Rightarrow>
             (case is_recent now (dummy_job published ''Remotive'') days of
                Inl e \<Rightarrow> Inl e
              | Inr False \<Rightarrow> Inr None
              | Inr True \<Rightarrow>
                  (let comp = get_default (rm_company_name item) ''N/A''
                   in if truthy_list top_companies \<and>
                         \<not> is_top_company ((dummy_job published ''Remotive'')\<lparr>company := comp\<rparr>)
                              (the top_companies)
                      then Inr None
                      else (case remotive_parse_salary (get_default (rm_salary item) []) of
                              Inl e \<Rightarrow> Inl e
                            | Inr (smin, smax) \<Rightarrow>
                                (let avg_salary = adapter_average smin smax
                                 in if avg_salary = None \<and> 0 < min_salary then Inr None
                                    else if avg_salary \<noteq> None \<and> the avg_salary < min_salary
                                    then Inr None
                                    else Inr (Some
                                      \<lparr>title = get_default (rm_title item) [],
                                       company = comp,
                                       location = get_default (rm_candidate_required_location item) ''Remote'',
                                       publication_date = published,
                                       salary_min = smin, salary_max = smax,
                                       currency = None,
                                       url = get_default (rm_url item) [],
                                       source = ''Remotive''\<rparr>))))))"

definition remotive_fetch_jobs ::
  "remotive_item list option \<Rightarrow> (string \<Rightarrow> datetime option) \<Rightarrow> datetime \<Rightarrow> int \<Rightarrow> real \<Rightarrow>
   string list option \<Rightarrow> int \<Rightarrow> py_exc + job list" where
  "remotive_fetch_jobs response fromisoformat now days min_salary top_companies limit =
     (case response of
        None \<Rightarrow> Inr []
      | Some items \<Rightarrow>
          (case collect (remotive_process fromisoformat now days min_salary top_companies) items [] of
             Inl e \<Rightarrow> Inl e
           | Inr jobs \<Rightarrow> Inr (py_slice_to limit (py_sort_desc sort_salary jobs))))"

section \<open>sources/adzuna.py\<close>

record adzuna_item =
  az_created :: "string option"
  az_company_display_name :: "string option"
  az_salary_min :: "real option"
  az_salary_max :: "real option"
  az_location_display_name :: "string option"
  az_redirect_url :: "string option"
  az_salary_currency :: "string option"
  az_title :: "string option"

definition truthy_str :: "string option \<Rightarrow> bool" where
  "truthy_str v = (v \<noteq> None \<and> v \<noteq> Some [])"

text \<open>\<open>_get_credentials\<close>: the pair it returns and what it logs.\<close>

definition get_credentials ::
  "(string \<rightharpoonup> string) \<Rightarrow> (string option \<times> string option) \<times> event list" where
  "get_credentials environ =
     (let app_id = environ ''ADZUNA_APP_ID''; app_key = environ ''ADZUNA_APP_KEY''
      in if \<not> truthy_str app_id \<or> \<not> truthy_str app_key
         then ((None, None), [LogWarning ''Adzuna credentials are not set.''])
         else ((app_id, app_key), []))"

definition adzuna_process ::
  "(string \<Rightarrow> datetime option) \<Rightarrow> datetime \<Rightarrow> int \<Rightarrow> real \<Rightarrow> string list option \<Rightarrow>
   adzuna_item \<Rightarrow> py_exc + job option" where
  "adzuna_process fromisoformat now days min_salary top_companies item =
     (let date_str = get_default (or_str (az_created item) (Some [])) []
      in case fromisoformat date_str of
           None \<Rightarrow> Inr None
         | Some published \<Rightarrow>
             (case is_recent now (dummy_job published ''Adzuna'') days of
                Inl e \<Rightarrow> Inl e
              | Inr False \<Rightarrow> Inr None
              | Inr True \<Rightarrow>
                  (let comp = get_default (az_company_display_name item) ''N/A''
                   in if truthy_list top_companies \<and>
                         \<not> is_top_company ((dummy_job published ''Adzuna'')\<lparr>company := comp\<rparr>)
                              (the top_companies)
                      then Inr None
                      else (let avg_salary = adapter_average (az_salary_min item) (az_salary_max item)
                            in if avg_salary = None \<and> 0 < min_salary then Inr None
                               else if avg_salary \<noteq> None \<and> the avg_salary < min_salary
                               then Inr None
                               else Inr (Some
                                 \<lparr>title = get_default (az_title item) [],
                                  company = comp,
                                  location = get_default (az_location_display_name item) [],
                                  publication_date = published,
                                  salary_min = az_salary_min item,
                                  salary_max = az_salary_max item,
                                  currency = az_salary_currency item,
                                  url = get_default (az_redirect_url item) [],
                                  source = ''Adzuna''\<rparr>)))))"

definition adzuna_params ::
  "string \<Rightarrow> string \<Rightarrow> real \<Rightarrow> int \<Rightarrow> string \<Rightarrow> string option \<Rightarrow> (string \<times> pval) list" where
  "adzuna_params app_id app_key min_salary limit what whr =
     [(''app_id'', PStr app_id), (''app_key'', PStr app_key),
      (''results_per_page'', PInt (min limit 50)),
      (''content-type'', PStr ''application/json''),
      (''sort_by'', PStr ''salary'')]
     @ (if what \<noteq> [] then [(''what'', PStr what)] else [])
     @ (if truthy_str whr then [(''where'', PStr (the whr))] else [])
     @ (if 0 < min_salary then [(''salary_min'', PInt \<lfloor>min_salary\<rfloor>)] else [])"

text \<open>
  The loop over the countries. The network is a parameter \<open>http\<close>: for an endpoint and
  its query parameters, \<open>None\<close> when the request, its status check or its decoding raised
  (logged, and the loop goes on), else the \<open>results\<close> array of the response. Every
  request made is recorded as an event.
\<close>

fun adzuna_countries ::
  "(string \<Rightarrow> (string \<times> pval) list \<Rightarrow> adzuna_item list option) \<Rightarrow> (string \<times> pval) list \<Rightarrow>
   (adzuna_item \<Rightarrow> py_exc + job option) \<Rightarrow> string list \<Rightarrow> job list \<Rightarrow> event list \<Rightarrow>
   (py_exc + job list) \<times> event list" where
  "adzuna_countries http params process [] results ev = (Inr results, ev)"
| "adzuna_countries http params process (country # rest) results ev =
     (let endpoint = ''https://api.adzuna.com/v1/api/jobs'' @ ''/'' @ country @ ''/search/1''
      in case http endpoint params of
           None \<Rightarrow>
             adzuna_countries http params process rest results
               (ev @ [HttpGet endpoint params, LogError (''Error fetching Adzuna jobs for '' @ country)])
         | Some items \<Rightarrow>
             (case collect process items results of
                Inl e \<Rightarrow> (Inl e, ev @ [HttpGet endpoint params])
              | Inr results' \<Rightarrow>
                  adzuna_countries http params process rest results' (ev @ [HttpGet endpoint params])))"

definition adzuna_fetch_jobs ::
  "(string \<rightharpoonup> string) \<Rightarrow> (string \<Rightarrow> (string \<times> pval) list \<Rightarrow> adzuna_item list option) \<Rightarrow>
   (string \<Rightarrow> datetime option) \<Rightarrow> datetime \<Rightarrow> int \<Rightarrow> real \<Rightarrow> string list option \<Rightarrow> int \<Rightarrow>
   string list option \<Rightarrow> string \<Rightarrow> string option \<Rightarrow> (py_exc + job list) \<times> event list" where
  "adzuna_fetch_jobs environ http fromisoformat now days min_salary top_companies limit
       countries what whr =
     (case get_credentials environ of
        ((app_id, app_key), ev) \<Rightarrow>
          if \<not> truthy_str app_id \<or> \<not> truthy_str app_key then (Inr [], ev)
          else (case adzuna_countries http
                       (adzuna_params (the app_id) (the app_key) min_salary limit what whr)
                       (adzuna_process fromisoformat now days min_salary top_companies)
                       (case countries of None \<Rightarrow> [''us'', ''gb'', ''in''] | Some cs \<Rightarrow> cs)
                       [] ev of
                  (Inl e, ev') \<Rightarrow> (Inl e, ev')
                | (Inr results, ev') \<Rightarrow>
                    (Inr (py_slice_to limit (py_sort_desc sort_salary results)), ev')))"

section \<open>firebase.py\<close>

text \<open>
  \<open>upsert_jobs_batch\<close>. The state of its loop: the writes staged in the open batch (each
  a document identifier with the job whose fields form the document), \<open>count\<close>,
  \<open>total\<close>, and the batches committed so far, in order.
\<close>

definition doc_id_of :: "string \<Rightarrow> string" where
  "doc_id_of u = replace_char CHR '':'' CHR ''_'' (replace_char CHR ''/'' CHR ''_'' u)"





section \<open>main.py: the orchestrator\<close>

text \<open>
  The list-valued names that main.py binds at its top level. The module binds
  \<open>LOGGER\<close> and its functions only: \<open>load_top_companies\<close> reads the global
  \<open>DEFAULT_TOP_COMPANIES\<close>, which no statement of the module (or of the repository)
  assigns.
\<close>

definition main_list_globals :: "(string \<times> string list) list" where
  "main_list_globals = []"

text \<open>\<open>os.environ\<close> is a map from names to strings.\<close>

definition load_top_companies ::
  "(string \<times> string list) list \<Rightarrow> (string \<rightharpoonup> string) \<Rightarrow> string \<Rightarrow> py_exc + string list" where
  "load_top_companies g environ env_var =
     (case environ env_var of
        None \<Rightarrow> lookup_global g ''DEFAULT_TOP_COMPANIES''
      | Some v \<Rightarrow>
          if v = [] then lookup_global g ''DEFAULT_TOP_COMPANIES''
          else Inr (map strip (filter (\<lambda>c. strip c \<noteq> []) (split_on CHR '','' v))))"

text \<open>
  The second half of \<open>scrape_jobs\<close>, from the deduplication on. The \<open>for\<close> loop keeps
  the set of URLs seen and the list of jobs kept.
\<close>

fun dedup_loop :: "job list \<Rightarrow> string set \<Rightarrow> job list \<Rightarrow> job list" where
  "dedup_loop [] seen unique_jobs = unique_jobs"
| "dedup_loop (j # js) seen unique_jobs =
     (if url j = [] \<or> url j \<in> seen then dedup_loop js seen unique_jobs
      else dedup_loop js (insert (url j) seen) (unique_jobs @ [j]))"

text \<open>
  The key of the final sort is the tuple \<open>(j.average_salary or 0.0, j.publication_date)\<close>.
  Tuples compare by their first components and, when these are equal, by the dates: two
  aware dates by their UTC instants, two naive ones by their wall-clock values. Comparing
  a naive with an aware date raises \<open>TypeError\<close>; the sort has to compare two records
  with the same salary key, so it raises when such a pair mixes naive and aware.
\<close>

definition sort_key_of :: "job \<Rightarrow> real \<times> int" where
  "sort_key_of j = (sort_salary j, utc_micros (publication_date j))"

definition comparable :: "job list \<Rightarrow> bool" where
  "comparable js =
     list_all (\<lambda>a. list_all (\<lambda>b. sort_salary a = sort_salary b \<longrightarrow>
        aware (publication_date a) = aware (publication_date b)) js) js"

definition merge_jobs :: "job list \<Rightarrow> int \<Rightarrow> py_exc + job list" where
  "merge_jobs jobs limit =
     (let unique_jobs = dedup_loop jobs {} []
      in if \<not> comparable unique_jobs then Inl TypeError
         else Inr (py_slice_to limit (py_sort_desc sort_key_of unique_jobs)))"

text \<open>
  \<open>scrape_jobs\<close>. The three adapter calls are parameters, each a function of the
  resolved \<open>top_companies\<close> (the other arguments are the caller's): an adapter that raises
  ends the call.
\<close>

definition add_source ::
  "string \<Rightarrow> string list \<Rightarrow> (py_exc + job list) \<Rightarrow> (py_exc + job list) \<Rightarrow> py_exc + job list" where
  "add_source name sources acc fetched =
     (case acc of
        Inl e \<Rightarrow> Inl e
      | Inr jobs \<Rightarrow>
          if name \<in> set sources
          then (case fetched of Inl e \<Rightarrow> Inl e | Inr fetched_jobs \<Rightarrow> Inr (jobs @ fetched_jobs))
          else Inr jobs)"

definition scrape_jobs ::
  "(string \<times> string list) list \<Rightarrow> (string \<rightharpoonup> string) \<Rightarrow>
   (string list \<Rightarrow> py_exc + job list) \<Rightarrow> (string list \<Rightarrow> py_exc + job list) \<Rightarrow>
   (string list \<Rightarrow> py_exc + job list) \<Rightarrow>
   int \<Rightarrow> string list option \<Rightarrow> string list option \<Rightarrow> py_exc + job list" where
  "scrape_jobs g environ fetch_remote_ok fetch_remotive fetch_adzuna limit top_companies sources =
     (case (case top_companies of
              None \<Rightarrow> load_top_companies g environ ''TOP_COMPANIES''
            | Some tc \<Rightarrow> Inr tc) of
        Inl e \<Rightarrow> Inl e
      | Inr tc \<Rightarrow>
          (let srcs = (if truthy_list sources then the sources
                       else [''remoteok'', ''remotive'', ''adzuna''])
           in case add_source ''adzuna'' srcs
                     (add_source ''remotive'' srcs
                        (add_source ''remoteok'' srcs (Inr []) (fetch_remote_ok tc))
                        (fetch_remotive tc))
                     (fetch_adzuna tc) of
                Inl e \<Rightarrow> Inl e
              | Inr jobs \<Rightarrow> merge_jobs jobs limit))"

section \<open>Loading the modules\<close>

text \<open>
  What importing a module does: its top-level statements run in order, each binding
  names in the module's namespace, until one raises. The statements modelled are the
  ones that bind names or import: \<open>import m as n\<close>, \<open>from m import a as b, ...\<close>, a
  binding (\<open>def\<close>, \<open>class\<close>, an assignment) and \<open>try: ... except ImportError: ...\<close>
  around imports. An imported module is given by the result of loading it: an exception,
  or the names it binds. Calls of library functions at the top level (\<open>load_dotenv()\<close>,
  \<open>logging.getLogger\<close>) are taken to return.
\<close>

datatype simple_stmt =
    Import "py_exc + string list" string
  | FromImport "py_exc + string list" "(string \<times> string) list"
  | Bind string

datatype stmt =
    Simple simple_stmt
  | TryExceptImportError "simple_stmt list" "simple_stmt list"

text \<open>\<open>from m import a as b, ...\<close> binds the names in order and raises \<open>ImportError\<close> at
  the first one the module does not have.\<close>

fun import_names ::
  "string list \<Rightarrow> (string \<times> string) list \<Rightarrow> string list \<Rightarrow> string list \<times> py_exc option" where
  "import_names exported [] ns = (ns, None)"
| "import_names exported (na # rest) ns =
     (if fst na \<in> set exported then import_names exported rest (snd na # ns)
      else (ns, Some ImportError))"

fun exec_simple :: "simple_stmt \<Rightarrow> string list \<Rightarrow> string list \<times> py_exc option" where
  "exec_simple (Import m alias) ns =
     (case m of Inl e \<Rightarrow> (ns, Some e) | Inr exported \<Rightarrow> (alias # ns, None))"
| "exec_simple (FromImport m names) ns =
     (case m of Inl e \<Rightarrow> (ns, Some e) | Inr exported \<Rightarrow> import_names exported names ns)"
| "exec_simple (Bind n) ns = (n # ns, None)"

fun exec_simples :: "simple_stmt list \<Rightarrow> string list \<Rightarrow> string list \<times> py_exc option" where
  "exec_simples [] ns = (ns, None)"
| "exec_simples (s # ss) ns =
     (case exec_simple s ns of
        (ns', None) \<Rightarrow> exec_simples ss ns'
      | (ns', Some e) \<Rightarrow> (ns', Some e))"

fun exec_stmt :: "stmt \<Rightarrow> string list \<Rightarrow> string list \<times> py_exc option" where
  "exec_stmt (Simple s) ns = exec_simple s ns"
| "exec_stmt (TryExceptImportError body handler) ns =
     (case exec_simples body ns of
        (ns', Some e) \<Rightarrow> if e = ImportError then exec_simples handler ns' else (ns', Some e)
      | (ns', None) \<Rightarrow> (ns', None))"

fun exec_stmts :: "stmt list \<Rightarrow> string list \<Rightarrow> string list \<times> py_exc option" where
  "exec_stmts [] ns = (ns, None)"
| "exec_stmts (s # ss) ns =
     (case exec_stmt s ns of
        (ns', None) \<Rightarrow> exec_stmts ss ns'
      | (ns', Some e) \<Rightarrow> (ns', Some e))"

definition load_module :: "stmt list \<Rightarrow> py_exc + string list" where
  "load_module stmts =
     (case exec_stmts stmts [] of (ns, None) \<Rightarrow> Inr ns | (ns, Some e) \<Rightarrow> Inl e)"

text \<open>
  The modules outside the repository (the standard library and the installed packages)
  are a parameter: for a module name, the names it offers, or \<open>None\<close> when it is not
  installed, in which case importing it raises \<open>ModuleNotFoundError\<close>, a subclass of
  \<open>ImportError\<close>.
\<close>

definition external :: "(string \<Rightarrow> string list option) \<Rightarrow> string \<Rightarrow> py_exc + string list" where
  "external ext m = (case ext m of None \<Rightarrow> Inl ImportError | Some names \<Rightarrow> Inr names)"

definition same :: "string list \<Rightarrow> (string \<times> string) list" where
  "same names = map (\<lambda>n. (n, n)) names"

text \<open>The statements of utils.py, firebase.py, the three adapters, sources/\_\_init\_\_.py
  and main.py, in source order. main.py is taken as imported as a member of its package,
  where the \<open>if __package__ is None\<close> block does not run.\<close>

definition utils_py :: "(string \<Rightarrow> string list option) \<Rightarrow> stmt list" where
  "utils_py ext =
     [Simple (FromImport (external ext ''__future__'') (same [''annotations''])),
      Simple (Import (external ext ''datetime'') ''_dt''),
      Simple (FromImport (external ext ''dataclasses'') (same [''dataclass''])),
      Simple (FromImport (external ext ''typing'') (same [''List'', ''Optional''])),
      Simple (FromImport (external ext ''tzlocal'') (same [''get_localzone''])),
      Simple (Bind ''Job''),
      Simple (Bind ''is_recent''),
      Simple (Bind ''is_top_company''),
      Simple (Bind ''to_local_date_str'')]"

definition firebase_py :: "(string \<Rightarrow> string list option) \<Rightarrow> stmt list" where
  "firebase_py ext =
     [Simple (FromImport (external ext ''__future__'') (same [''annotations''])),
      Simple (Import (external ext ''logging'') ''logging''),
      Simple (Import (external ext ''os'') ''os''),
      Simple (FromImport (external ext ''typing'') (same [''Iterable'', ''Optional''])),
      Simple (FromImport (external ext ''google.auth.exceptions'') (same [''DefaultCredentialsError''])),
      Simple (FromImport (external ext ''google.cloud.firestore'') (same [''Client''])),
      Simple (FromImport (load_module (utils_py ext)) (same [''Job''])),
      TryExceptImportError
        [Import (external ext ''firebase_admin'') ''firebase_admin'',
         FromImport (external ext ''firebase_admin'') (same [''credentials'', ''firestore''])]
        [Bind ''firebase_admin''],
      Simple (Bind ''LOGGER''),
      Simple (Bind ''init_firebase''),
      Simple (Bind ''upsert_jobs_batch'')]"

definition adapter_py :: "(string \<Rightarrow> string list option) \<Rightarrow> string list \<Rightarrow> string list \<Rightarrow> stmt list" where
  "adapter_py ext stdlib bound =
     [Simple (FromImport (external ext ''__future__'') (same [''annotations''])),
      Simple (Import (external ext ''datetime'') ''_dt'')]
     @ map (\<lambda>m. Simple (Import (external ext m) m)) stdlib
     @ [Simple (FromImport (external ext ''typing'') (same [''List'', ''Optional''])),
        Simple (Import (external ext ''requests'') ''requests''),
        Simple (FromImport (load_module (utils_py ext)) (same [''Job'', ''is_recent'', ''is_top_company''])),
        Simple (Bind ''LOGGER'')]
     @ map (\<lambda>n. Simple (Bind n)) bound"

definition remote_ok_py :: "(string \<Rightarrow> string list option) \<Rightarrow> stmt list" where
  "remote_ok_py ext =
     adapter_py ext [''logging'', ''re''] [''REMOTE_OK_API_URL'', ''_parse_salary'', ''fetch_jobs'']"

definition remotive_py :: "(string \<Rightarrow> string list option) \<Rightarrow> stmt list" where
  "remotive_py ext =
     adapter_py ext [''logging'', ''re''] [''REMOTIVE_API_URL'', ''_parse_salary'', ''fetch_jobs'']"

definition adzuna_py :: "(string \<Rightarrow> string list option) \<Rightarrow> stmt list" where
  "adzuna_py ext =
     adapter_py ext [''logging'', ''os''] [''ADZUNA_API_BASE'', ''_get_credentials'', ''fetch_jobs'']"

definition sources_init_py :: "(string \<Rightarrow> string list option) \<Rightarrow> stmt list" where
  "sources_init_py ext =
     [Simple (FromImport (load_module (remote_ok_py ext)) [(''fetch_jobs'', ''fetch_remote_ok_jobs'')]),
      Simple (FromImport (load_module (remotive_py ext)) [(''fetch_jobs'', ''fetch_remotive_jobs'')]),
      Simple (FromImport (load_module (adzuna_py ext)) [(''fetch_jobs'', ''fetch_adzuna_jobs'')]),
      Simple (Bind ''__all__'')]"

definition main_py_head :: "(string \<Rightarrow> string list option) \<Rightarrow> stmt list" where
  "main_py_head ext =
     [Simple (FromImport (external ext ''__future__'') (same [''annotations'']))]
     @ map (\<lambda>m. Simple (Import (external ext m) m)) [''argparse'', ''csv'']
     @ [Simple (Import (external ext ''datetime'') ''_dt'')]
     @ map (\<lambda>m. Simple (Import (external ext m) m)) [''logging'', ''os'', ''signal'', ''sys'']
     @ [Simple (FromImport (external ext ''typing'') (same [''List'', ''Optional''])),
        Simple (Import (external ext ''schedule'') ''schedule''),
        Simple (Import (external ext ''time'') ''time''),
        Simple (FromImport (external ext ''dotenv'') (same [''load_dotenv'']))]"

definition main_py_tail :: "(string \<Rightarrow> string list option) \<Rightarrow> stmt list" where
  "main_py_tail ext =
     [Simple (FromImport (load_module (sources_init_py ext))
        (same [''fetch_adzuna_jobs'', ''fetch_remote_ok_jobs'', ''fetch_remotive_jobs''])),
      Simple (FromImport (load_module (utils_py ext)) (same [''Job'', ''to_local_date_str''])),
      Simple (Bind ''LOGGER'')]
     @ map (\<lambda>n. Simple (Bind n))
         [''load_top_companies'', ''scrape_jobs'', ''save_jobs_to_csv'', ''run_pipeline'',
          ''schedule_pipeline'', ''main_cli'', ''_run_app'', ''_register_appify'']"

definition main_py :: "(string \<Rightarrow> string list option) \<Rightarrow> stmt list" where
  "main_py ext =
     main_py_head ext
     @ [Simple (FromImport (load_module (firebase_py ext)) (same [''init_firebase'', ''upsert_jobs'']))]
     @ main_py_tail ext"

text \<open>The names a statement list can bind.\<close>

fun binds_simple :: "simple_stmt \<Rightarrow> string list" where
  "binds_simple (Import m alias) = [alias]"
| "binds_simple (FromImport m names) = map snd names"
| "binds_simple (Bind n) = [n]"

fun binds :: "stmt \<Rightarrow> string list" where
  "binds (Simple s) = binds_simple s"
| "binds (TryExceptImportError body handler) = concat (map binds_simple (body @ handler))"

section \<open>Properties\<close>

subsection \<open>Sample values for the evaluations\<close>

text \<open>
  A clock reading (2024-01-08T00:00:00 UTC), a job with a given date, bounds and URL, and
  the values of \<open>datetime.fromisoformat\<close> on the two strings the evaluations below
  use: with an explicit offset the result is aware, without one it is naive.
\<close>

definition sample_now :: datetime where
  "sample_now = \<lparr>micros = 738892 * day_us, utcoffset = Some 0\<rparr>"

definition sample_job :: "datetime \<Rightarrow> real option \<Rightarrow> real option \<Rightarrow> string \<Rightarrow> job" where
  "sample_job published smin smax u =
     \<lparr>title = ''Engineer'', company = ''Acme'', location = ''Remote'',
      publication_date = published, salary_min = smin, salary_max = smax,
      currency = None, url = u, source = ''Remotive''\<rparr>"

definition sample_fromisoformat :: "string \<Rightarrow> datetime option" where
  "sample_fromisoformat s =
     (if s = ''2024-01-05T00:00:00+00:00''
      then Some \<lparr>micros = 738889 * day_us, utcoffset = Some 0\<rparr>
      else if s = ''2024-01-05T00:00:00''
      then Some \<lparr>micros = 738889 * day_us, utcoffset = None\<rparr>
      else None)"

text \<open>A raw item of each feed, with a given date string (and salary text).\<close>

definition sample_ro_item :: "string \<Rightarrow> string \<Rightarrow> remote_ok_item" where
  "sample_ro_item d sal = \<lparr>ro_date = Some d, ro_publication_date = None,
     ro_salary_min = None, ro_salary_max = None, ro_salary = Some sal,
     ro_company = Some ''Acme'', ro_position = Some ''Engineer'', ro_location = None,
     ro_url = Some ''https://remoteok.com/jobs/1''\<rparr>"

definition sample_rm_item :: "string \<Rightarrow> string \<Rightarrow> remotive_item" where
  "sample_rm_item d sal = \<lparr>rm_publication_date = Some d, rm_company_name = Some ''Acme'',
     rm_salary = Some sal, rm_candidate_required_location = None,
     rm_url = Some ''https://remotive.com/jobs/1'', rm_title = Some ''Engineer''\<rparr>"

definition sample_az_item :: "string \<Rightarrow> adzuna_item" where
  "sample_az_item d = \<lparr>az_created = Some d, az_company_display_name = Some ''Acme'',
     az_salary_min = Some 90000, az_salary_max = None, az_location_display_name = None,
     az_redirect_url = Some ''https://adzuna.com/jobs/1'', az_salary_currency = Some ''USD'',
     az_title = Some ''Engineer''\<rparr>"

subsection \<open>average\_salary\<close>

lemma average_salary_both:
  "average_salary (j\<lparr>salary_min := Some a, salary_max := Some b\<rparr>) = Some ((a + b) / 2)"
  by (simp add: average_salary_def)

lemma average_salary_none:
  "average_salary (j\<lparr>salary_min := None, salary_max := None\<rparr>) = None"
  by (simp add: average_salary_def py_or_num_def truthy_num_def)

lemma average_salary_min_only:
  "average_salary (j\<lparr>salary_min := Some a, salary_max := None\<rparr>) = Some a"
  by (simp add: average_salary_def py_or_num_def truthy_num_def)

lemma average_salary_max_only:
  "average_salary (j\<lparr>salary_min := None, salary_max := Some b\<rparr>) = (if b = 0 then None else Some b)"
  by (simp add: average_salary_def py_or_num_def truthy_num_def)

text \<open>
  C3. The claim asks that a single present bound is returned whatever its value, 0
  included, and that the average is absent only when both bounds are. The source returns
  \<open>self.salary_max or self.salary_min\<close>: a maximum of 0 is falsy, so with no minimum the
  result is \<open>None\<close> although one bound is present. The other examples of the claim hold:
  80000 and 120000 average to 100000, and a lone maximum of 90000 gives 90000.
\<close>

theorem average_salary_zero_max_is_absent:
  "average_salary \<lparr>title = ''t'', company = ''c'', location = ''l'',
      publication_date = \<lparr>micros = 0, utcoffset = Some 0\<rparr>,
      salary_min = None, salary_max = Some 0, currency = None,
      url = ''u'', source = ''s''\<rparr> = None
   \<and> average_salary \<lparr>title = ''t'', company = ''c'', location = ''l'',
      publication_date = \<lparr>micros = 0, utcoffset = Some 0\<rparr>,
      salary_min = Some 80000, salary_max = Some 120000, currency = None,
      url = ''u'', source = ''s''\<rparr> = Some 100000
   \<and> average_salary \<lparr>title = ''t'', company = ''c'', location = ''l'',
      publication_date = \<lparr>micros = 0, utcoffset = Some 0\<rparr>,
      salary_min = None, salary_max = Some 90000, currency = None,
      url = ''u'', source = ''s''\<rparr> = Some 90000"
  by (simp add: average_salary_def py_or_num_def truthy_num_def)

subsection \<open>is\_recent\<close>

text \<open>
  C8 (as amended). For a job whose publication date is aware, a clock reading in UTC and
  a day count for which \<open>timedelta(days=days)\<close> exists and the cutoff \<open>now - days\<close> days
  is a representable datetime, \<open>is_recent\<close> returns true exactly when the publication
  instant is at or after the cutoff: the boundary is inclusive.
\<close>

theorem is_recent_inclusive:
  assumes "utcoffset (publication_date j) = Some off" and "utcoffset now = Some 0"
    and "- TD_MAX_DAYS \<le> days" and "days \<le> TD_MAX_DAYS"
    and "0 \<le> micros now - days * day_us" and "micros now - days * day_us \<le> DT_MAX"
  shows "is_recent now j days =
           Inr (micros now - days * day_us \<le> micros (publication_date j) - off)"
  using assms by (simp add: is_recent_def timedelta_days_def dt_sub_def dt_ge_def Let_def)

text \<open>With seven days: a date exactly seven days before the reading is recent, a date
  one second older is not.\<close>

theorem is_recent_inclusive_witness:
  "is_recent sample_now
      (sample_job \<lparr>micros = 738885 * day_us, utcoffset = Some 0\<rparr> None None ''u'') 7 = Inr True
   \<and> is_recent sample_now
      (sample_job \<lparr>micros = 738885 * day_us - 1000000, utcoffset = Some 0\<rparr> None None ''u'') 7
     = Inr False"
  using
    is_recent_inclusive
      [of "sample_job \<lparr>micros = 738885 * day_us, utcoffset = Some 0\<rparr> None None ''u''"
          0 sample_now 7]
    is_recent_inclusive
      [of "sample_job \<lparr>micros = 738885 * day_us - 1000000, utcoffset = Some 0\<rparr> None None ''u''"
          0 sample_now 7]
  by (simp add: sample_now_def sample_job_def day_us_def DT_MAX_def TD_MAX_DAYS_def)

text \<open>
  C8 as stated quantifies over every integer \<open>days\<close>. A day count that takes the cutoff
  before year 1, or one of more than nine digits, makes the subtraction raise
  \<open>OverflowError\<close>: the call returns neither true nor false.
\<close>

theorem is_recent_not_total:
  "is_recent sample_now
      (sample_job \<lparr>micros = 738885 * day_us, utcoffset = Some 0\<rparr> None None ''u'') 1000000
     = Inl OverflowError
   \<and> is_recent sample_now
      (sample_job \<lparr>micros = 738885 * day_us, utcoffset = Some 0\<rparr> None None ''u'') 1000000000
     = Inl OverflowError"
  by (simp add: is_recent_def timedelta_days_def dt_sub_def sample_now_def day_us_def
      DT_MAX_def TD_MAX_DAYS_def Let_def)

subsection \<open>load\_top\_companies\<close>

lemma load_top_companies_set:
  assumes "environ env_var = Some v" and "v \<noteq> []"
  shows "load_top_companies g environ env_var =
           Inr (map strip (filter (\<lambda>c. strip c \<noteq> []) (split_on CHR '','' v)))"
  using assms by (simp add: load_top_companies_def)

lemma load_top_companies_unset:
  assumes "environ env_var = None \<or> environ env_var = Some []"
  shows "load_top_companies g environ env_var = lookup_global g ''DEFAULT_TOP_COMPANIES''"
  using assms by (auto simp add: load_top_companies_def)

text \<open>
  C2. With the variable unset, or set to the empty string, the function evaluates the
  global name \<open>DEFAULT_TOP_COMPANIES\<close>. main.py never binds that name, so the call
  raises \<open>NameError\<close> where the claim promises a built-in default list. (With the
  variable set and not empty the function returns the trimmed, non-empty comma-separated
  entries, as \<open>load_top_companies_set\<close> states.)
\<close>

theorem load_top_companies_default_unbound:
  "load_top_companies main_list_globals Map.empty ''TOP_COMPANIES'' = Inl NameError
   \<and> load_top_companies main_list_globals [''TOP_COMPANIES'' \<mapsto> []] ''TOP_COMPANIES''
     = Inl NameError"
  by (simp add: load_top_companies_def lookup_global_def main_list_globals_def)

subsection \<open>The credentialed adapter without credentials\<close>

text \<open>
  C10. When either of \<open>ADZUNA_APP_ID\<close> and \<open>ADZUNA_APP_KEY\<close> is unset or empty, the
  adapter returns the empty list, and all it does to the outside world is to log one
  warning: no request is made, whatever the network would answer.
\<close>

theorem adzuna_no_credentials:
  assumes "environ ''ADZUNA_APP_ID'' = None \<or> environ ''ADZUNA_APP_ID'' = Some []
         \<or> environ ''ADZUNA_APP_KEY'' = None \<or> environ ''ADZUNA_APP_KEY'' = Some []"
  shows "adzuna_fetch_jobs environ http fromisoformat now days min_salary top_companies limit
           countries what whr = (Inr [], [LogWarning ''Adzuna credentials are not set.''])"
  using assms
  by (auto simp add: adzuna_fetch_jobs_def get_credentials_def truthy_str_def Let_def)

theorem adzuna_no_credentials_witness:
  "adzuna_fetch_jobs [''ADZUNA_APP_ID'' \<mapsto> ''id''] (\<lambda>endpoint params. Some [])
      sample_fromisoformat sample_now 7 0 None 50 None [] None
     = (Inr [], [LogWarning ''Adzuna credentials are not set.''])"
  using adzuna_no_credentials [of "[''ADZUNA_APP_ID'' \<mapsto> ''id'']" "\<lambda>endpoint params. Some []"
      sample_fromisoformat sample_now 7 0 None 50 None "[]" None]
  by simp

text \<open>With both credentials set the adapter does reach the network: one request per
  country of the default list.\<close>

lemma adzuna_with_credentials_requests:
  "map (\<lambda>e. case e of HttpGet endpoint params \<Rightarrow> endpoint | _ \<Rightarrow> [])
     (snd (adzuna_fetch_jobs [''ADZUNA_APP_ID'' \<mapsto> ''id'', ''ADZUNA_APP_KEY'' \<mapsto> ''key'']
        (\<lambda>endpoint params. Some []) sample_fromisoformat sample_now 7 0 None 50 None [] None))
   = [''https://api.adzuna.com/v1/api/jobs/us/search/1'',
      ''https://api.adzuna.com/v1/api/jobs/gb/search/1'',
      ''https://api.adzuna.com/v1/api/jobs/in/search/1'']"
  by (simp add: adzuna_fetch_jobs_def get_credentials_def truthy_str_def Let_def)

subsection \<open>Aware and naive publication dates\<close>

text \<open>A comparison that returns has compared two aware dates: every job an adapter
  builds carries an aware publication date.\<close>

lemma is_recent_True_aware:
  assumes "is_recent now j days = Inr b" and "aware now"
  shows "aware (publication_date j)"
  using assms
  by (auto simp add: is_recent_def dt_sub_def dt_ge_def aware_def Let_def
      split: sum.splits if_splits option.splits)

lemma is_recent_naive_raises:
  assumes "utcoffset (publication_date j) = None" and "aware now"
  shows "is_recent now j days = Inl TypeError \<or> is_recent now j days = Inl OverflowError"
  using assms
  by (auto simp add: is_recent_def dt_sub_def dt_ge_def aware_def Let_def timedelta_days_def
      split: sum.splits if_splits option.splits)

lemma remote_ok_process_aware:
  assumes "remote_ok_process fromisoformat now days min_salary top_companies item = Inr (Some j)"
    and "aware now"
  shows "aware (publication_date j)"
proof -
  obtain published where p: "publication_date j = published"
    and r: "is_recent now (dummy_job published ''Remote OK'') days = Inr True"
    using assms(1)
    by (auto simp add: remote_ok_process_def Let_def
        split: option.splits sum.splits bool.splits if_splits prod.splits)
  from is_recent_True_aware [OF r assms(2)] p show ?thesis
    by (simp add: dummy_job_def)
qed

lemma remotive_process_aware:
  assumes "remotive_process fromisoformat now days min_salary top_companies item = Inr (Some j)"
    and "aware now"
  shows "aware (publication_date j)"
proof -
  obtain published where p: "publication_date j = published"
    and r: "is_recent now (dummy_job published ''Remotive'') days = Inr True"
    using assms(1)
    by (auto simp add: remotive_process_def Let_def
        split: option.splits sum.splits bool.splits if_splits prod.splits)
  from is_recent_True_aware [OF r assms(2)] p show ?thesis
    by (simp add: dummy_job_def)
qed

lemma adzuna_process_aware:
  assumes "adzuna_process fromisoformat now days min_salary top_companies item = Inr (Some j)"
    and "aware now"
  shows "aware (publication_date j)"
proof -
  obtain published where p: "publication_date j = published"
    and r: "is_recent now (dummy_job published ''Adzuna'') days = Inr True"
    using assms(1)
    by (auto simp add: adzuna_process_def Let_def
        split: option.splits sum.splits bool.splits if_splits prod.splits)
  from is_recent_True_aware [OF r assms(2)] p show ?thesis
    by (simp add: dummy_job_def)
qed

lemma remotive_naive_raises:
  assumes "fromisoformat (get_default (or_str (rm_publication_date item) (Some [])) []) = Some published"
    and "utcoffset published = None" and "aware now"
  shows "remotive_process fromisoformat now days min_salary top_companies item = Inl TypeError
       \<or> remotive_process fromisoformat now days min_salary top_companies item = Inl OverflowError"
  using assms(1) is_recent_naive_raises [of "dummy_job published ''Remotive''" now days] assms(2,3)
  by (auto simp add: remotive_process_def Let_def dummy_job_def)

text \<open>So every list an adapter returns holds aware dates only.\<close>

lemma collect_all:
  assumes "collect f items acc = Inr jobs" and "list_all P acc"
    and "\<And>item j. f item = Inr (Some j) \<Longrightarrow> P j"
  shows "list_all P jobs"
  using assms(1,2)
proof (induction items arbitrary: acc)
  case Nil
  then show ?case by simp
next
  case (Cons item items)
  show ?case
  proof (cases "f item")
    case (Inl e)
    with Cons.prems show ?thesis by simp
  next
    case (Inr r)
    show ?thesis
    proof (cases r)
      case None
      with Inr Cons show ?thesis by simp
    next
      case (Some j)
      with Inr assms(3) have "P j" by simp
      with Cons.prems(2) have "list_all P (acc @ [j])" by simp
      with Cons.IH [of "acc @ [j]"] Cons.prems(1) Inr Some show ?thesis by simp
    qed
  qed
qed

lemma ranked_cut_all:
  assumes "list_all P jobs"
  shows "list_all P (py_slice_to limit (py_sort_desc f jobs))"
proof -
  have "set (py_slice_to limit (py_sort_desc f jobs)) \<subseteq> set (py_sort_desc f jobs)"
    by (auto simp add: py_slice_to_def dest: in_set_takeD)
  also have "set (py_sort_desc f jobs) = set jobs"
    by (simp add: py_sort_desc_def)
  finally show ?thesis using assms by (auto simp add: list_all_iff)
qed

lemma remote_ok_fetch_jobs_aware:
  assumes "remote_ok_fetch_jobs response fromisoformat now days min_salary top_companies limit
             = Inr jobs"
    and "aware now"
  shows "list_all (\<lambda>j. aware (publication_date j)) jobs"
proof (cases response)
  case None
  with assms(1) show ?thesis by (simp add: remote_ok_fetch_jobs_def)
next
  case (Some data)
  with assms(1) obtain js where
    c: "collect (remote_ok_process fromisoformat now days min_salary top_companies) (drop 1 data) []
          = Inr js"
    and j: "jobs = py_slice_to limit (py_sort_desc sort_salary js)"
    by (auto simp add: remote_ok_fetch_jobs_def split: sum.splits)
  have "list_all (\<lambda>j. aware (publication_date j)) js"
    using c by (rule collect_all) (simp_all add: remote_ok_process_aware [OF _ assms(2)])
  then show ?thesis unfolding j by (rule ranked_cut_all)
qed

lemma remotive_fetch_jobs_aware:
  assumes "remotive_fetch_jobs response fromisoformat now days min_salary top_companies limit
             = Inr jobs"
    and "aware now"
  shows "list_all (\<lambda>j. aware (publication_date j)) jobs"
proof (cases response)
  case None
  with assms(1) show ?thesis by (simp add: remotive_fetch_jobs_def)
next
  case (Some items)
  with assms(1) obtain js where
    c: "collect (remotive_process fromisoformat now days min_salary top_companies) items []
          = Inr js"
    and j: "jobs = py_slice_to limit (py_sort_desc sort_salary js)"
    by (auto simp add: remotive_fetch_jobs_def split: sum.splits)
  have "list_all (\<lambda>j. aware (publication_date j)) js"
    using c by (rule collect_all) (simp_all add: remotive_process_aware [OF _ assms(2)])
  then show ?thesis unfolding j by (rule ranked_cut_all)
qed

lemma adzuna_countries_all:
  assumes "adzuna_countries http params process countries results ev = (Inr jobs, ev')"
    and "list_all P results"
    and "\<And>item j. process item = Inr (Some j) \<Longrightarrow> P j"
  shows "list_all P jobs"
  using assms(1,2)
proof (induction countries arbitrary: results ev)
  case Nil
  then show ?case by simp
next
  case (Cons country rest)
  let ?endpoint = "''https://api.adzuna.com/v1/api/jobs'' @ ''/'' @ country @ ''/search/1''"
  show ?case
  proof (cases "http ?endpoint params")
    case None
    with Cons show ?thesis by (simp add: Let_def)
  next
    case (Some items)
    show ?thesis
    proof (cases "collect process items results")
      case (Inl e)
      with Some Cons.prems show ?thesis by (simp add: Let_def)
    next
      case (Inr results')
      have "list_all P results'"
        using Inr Cons.prems(2) assms(3) by (rule collect_all)
      with Cons.IH [of results'] Cons.prems(1) Some Inr show ?thesis
        by (simp add: Let_def)
    qed
  qed
qed

lemma adzuna_fetch_jobs_aware:
  assumes "adzuna_fetch_jobs environ http fromisoformat now days min_salary top_companies limit
             countries what whr = (Inr jobs, ev)"
    and "aware now"
  shows "list_all (\<lambda>j. aware (publication_date j)) jobs"
proof (cases "\<not> truthy_str (environ ''ADZUNA_APP_ID'') \<or> \<not> truthy_str (environ ''ADZUNA_APP_KEY'')")
  case True
  with assms(1) show ?thesis
    by (auto simp add: adzuna_fetch_jobs_def get_credentials_def Let_def truthy_str_def)
next
  case False
  with assms(1) obtain results cs ps ev0 where
    c: "adzuna_countries http ps
          (adzuna_process fromisoformat now days min_salary top_companies) cs [] ev0
        = (Inr results, ev)"
    and j: "jobs = py_slice_to limit (py_sort_desc sort_salary results)"
    by (auto simp add: adzuna_fetch_jobs_def get_credentials_def Let_def
        split: prod.splits sum.splits)
  have "list_all (\<lambda>j. aware (publication_date j)) results"
    using c by (rule adzuna_countries_all) (simp_all add: adzuna_process_aware [OF _ assms(2)])
  then show ?thesis unfolding j by (rule ranked_cut_all)
qed

text \<open>
  C5. The claim says that an item whose date string parses, with or without an explicit
  offset, is skipped or yields a job, and that the adapter does not raise. A string with
  no offset parses to a naive datetime; the adapters pass it to \<open>is_recent\<close> as it
  is, the comparison with the aware cutoff raises \<open>TypeError\<close> outside every
  \<open>try\<close>, and the exception leaves \<open>fetch_jobs\<close>. The Remote OK adapter only
  rewrites a literal \<open>Z\<close>, so it raises on the same string.
\<close>

theorem naive_date_raises:
  "remotive_process sample_fromisoformat sample_now 7 0 None
      (sample_rm_item ''2024-01-05T00:00:00'' ''100k-150k'') = Inl TypeError
   \<and> remote_ok_process sample_fromisoformat sample_now 7 0 None
      (sample_ro_item ''2024-01-05T00:00:00'' ''$100,000'') = Inl TypeError
   \<and> adzuna_process sample_fromisoformat sample_now 7 0 None
      (sample_az_item ''2024-01-05T00:00:00'') = Inl TypeError
   \<and> remotive_fetch_jobs (Some [sample_rm_item ''2024-01-05T00:00:00'' ''100k-150k''])
        sample_fromisoformat sample_now 7 0 None 50 = Inl TypeError"
  by code_simp

lemma aware_date_kept:
  "remotive_process sample_fromisoformat sample_now 7 0 None
      (sample_rm_item ''2024-01-05T00:00:00+00:00'' ''100k-150k'')
   = Inr (Some \<lparr>title = ''Engineer'', company = ''Acme'', location = ''Remote'',
        publication_date = \<lparr>micros = 738889 * day_us, utcoffset = Some 0\<rparr>,
        salary_min = Some 100000, salary_max = Some 150000, currency = None,
        url = ''https://remotive.com/jobs/1'', source = ''Remotive''\<rparr>)"
  by code_simp


subsection \<open>The salary filters of the adapters\<close>

text \<open>
  C9. For an item of the Remote OK feed that reaches the salary filter (its date parses,
  it is recent, its salary fields are read without error): it is dropped when its
  average is absent, whatever \<open>min_salary\<close> is, and when its average is below
  \<open>min_salary\<close>. For an item of the Remotive feed that reaches the salary filter (its
  date parses, it is recent, it passes the company filter, its salary text parses) and
  has no average: it is dropped when \<open>min_salary > 0\<close> and appended as a job otherwise,
  so with \<open>min_salary = 0\<close> it is retained.
\<close>

theorem absent_salary_policy:
  assumes "fromisoformat (ro_date_norm ro) = Some pub_ro"
    and "is_recent now (dummy_job pub_ro ''Remote OK'') days = Inr True"
    and "remote_ok_salaries ro = Inr (smin_ro, smax_ro)"
    and "fromisoformat (get_default (or_str (rm_publication_date rm) (Some [])) []) = Some pub_rm"
    and "is_recent now (dummy_job pub_rm ''Remotive'') days = Inr True"
    and "\<not> (truthy_list top_companies \<and>
            \<not> is_top_company
                ((dummy_job pub_rm ''Remotive'')\<lparr>company := get_default (rm_company_name rm) ''N/A''\<rparr>)
                (the top_companies))"
    and "remotive_parse_salary (get_default (rm_salary rm) []) = Inr (smin_rm, smax_rm)"
  shows "(adapter_average smin_ro smax_ro = None \<longrightarrow>
            remote_ok_process fromisoformat now days min_salary top_companies ro = Inr None)
       \<and> (\<forall>a. adapter_average smin_ro smax_ro = Some a \<and> a < min_salary \<longrightarrow>
            remote_ok_process fromisoformat now days min_salary top_companies ro = Inr None)
       \<and> (adapter_average smin_rm smax_rm = None \<longrightarrow>
            remotive_process fromisoformat now days min_salary top_companies rm =
              (if 0 < min_salary then Inr None
               else Inr (Some
                 \<lparr>title = get_default (rm_title rm) [],
                  company = get_default (rm_company_name rm) ''N/A'',
                  location = get_default (rm_candidate_required_location rm) ''Remote'',
                  publication_date = pub_rm,
                  salary_min = smin_rm, salary_max = smax_rm,
                  currency = None,
                  url = get_default (rm_url rm) [],
                  source = ''Remotive''\<rparr>)))"
proof -
  have ro: "remote_ok_process fromisoformat now days min_salary top_companies ro = Inr None"
    if "adapter_average smin_ro smax_ro = None \<or> the (adapter_average smin_ro smax_ro) < min_salary"
    using that assms(1-3) by (auto simp add: remote_ok_process_def ro_date_norm_def Let_def)
  have rm: "remotive_process fromisoformat now days min_salary top_companies rm =
              (if 0 < min_salary then Inr None
               else Inr (Some
                 \<lparr>title = get_default (rm_title rm) [],
                  company = get_default (rm_company_name rm) ''N/A'',
                  location = get_default (rm_candidate_required_location rm) ''Remote'',
                  publication_date = pub_rm,
                  salary_min = smin_rm, salary_max = smax_rm,
                  currency = None,
                  url = get_default (rm_url rm) [],
                  source = ''Remotive''\<rparr>))"
    if "adapter_average smin_rm smax_rm = None"
    using that assms(4-7) by (auto simp add: remotive_process_def Let_def)
  from ro rm show ?thesis by auto
qed

theorem absent_salary_policy_witness:
  "remote_ok_process sample_fromisoformat sample_now 7 0 None
      (sample_ro_item ''2024-01-05T00:00:00Z'' ''competitive'') = Inr None
   \<and> remotive_process sample_fromisoformat sample_now 7 0 None
      (sample_rm_item ''2024-01-05T00:00:00+00:00'' ''competitive'')
     = Inr (Some \<lparr>title = ''Engineer'', company = ''Acme'', location = ''Remote'',
          publication_date = \<lparr>micros = 738889 * day_us, utcoffset = Some 0\<rparr>,
          salary_min = None, salary_max = None, currency = None,
          url = ''https://remotive.com/jobs/1'', source = ''Remotive''\<rparr>)
   \<and> remotive_process sample_fromisoformat sample_now 7 1 None
      (sample_rm_item ''2024-01-05T00:00:00+00:00'' ''competitive'') = Inr None"
proof -
  let ?ro = "sample_ro_item ''2024-01-05T00:00:00Z'' ''competitive''"
  let ?rm = "sample_rm_item ''2024-01-05T00:00:00+00:00'' ''competitive''"
  let ?pub = "\<lparr>micros = 738889 * day_us, utcoffset = Some 0\<rparr>"
  have h1: "sample_fromisoformat (ro_date_norm ?ro) = Some ?pub" by code_simp
  have h2: "is_recent sample_now (dummy_job ?pub ''Remote OK'') 7 = Inr True" by code_simp
  have h3: "remote_ok_salaries ?ro = Inr (None, None)" by code_simp
  have h4: "sample_fromisoformat (get_default (or_str (rm_publication_date ?rm) (Some [])) [])
              = Some ?pub" by code_simp
  have h5: "is_recent sample_now (dummy_job ?pub ''Remotive'') 7 = Inr True" by code_simp
  have h6: "\<not> (truthy_list None \<and>
            \<not> is_top_company
                ((dummy_job ?pub ''Remotive'')\<lparr>company := get_default (rm_company_name ?rm) ''N/A''\<rparr>)
                (the None))" by (simp add: truthy_list_def)
  have h7: "remotive_parse_salary (get_default (rm_salary ?rm) []) = Inr (None, None)"
    by code_simp
  have avg: "adapter_average None None = None" by (simp add: adapter_average_def)
  have g: "get_default (rm_title ?rm) [] = ''Engineer''"
    "get_default (rm_company_name ?rm) ''N/A'' = ''Acme''"
    "get_default (rm_candidate_required_location ?rm) ''Remote'' = ''Remote''"
    "get_default (rm_url ?rm) [] = ''https://remotive.com/jobs/1''"
    by (simp_all add: sample_rm_item_def get_default_def)
  from absent_salary_policy [OF h1 h2 h3 h4 h5 h6 h7, of 0]
       absent_salary_policy [OF h1 h2 h3 h4 h5 h6 h7, of 1] avg g
  show ?thesis by simp
qed

subsection \<open>The batched upsert\<close>












lemma doc_id_of_chars:
  "doc_id_of u = map (\<lambda>c. if c = CHR ''/'' \<or> c = CHR '':'' then CHR ''_'' else c) u"
  by (simp add: doc_id_of_def replace_char_def)



subsection \<open>Deduplication, ranking and truncation in scrape\_jobs\<close>

text \<open>The deduplication loop without its accumulator: what it keeps of a list, given the
  URLs already seen.\<close>

fun keep_first :: "string set \<Rightarrow> job list \<Rightarrow> job list" where
  "keep_first seen [] = []"
| "keep_first seen (j # js) =
     (if url j = [] \<or> url j \<in> seen then keep_first seen js
      else j # keep_first (insert (url j) seen) js)"

lemma dedup_loop_keep_first: "dedup_loop js seen acc = acc @ keep_first seen js"
  by (induction js arbitrary: seen acc) auto

lemma keep_first_subseq: "subseq (keep_first seen js) js"
  by (induction js arbitrary: seen) auto

lemma keep_first_urls:
  "set (map url (keep_first seen js)) = set (map url js) - seen - {[]}"
  by (induction js arbitrary: seen) auto

lemma keep_first_distinct: "distinct (map url (keep_first seen js))"
  by (induction js arbitrary: seen) (auto simp add: keep_first_urls simp flip: set_map)

lemma keep_first_fresh:
  "j \<in> set (keep_first seen js) \<Longrightarrow> url j \<notin> seen \<and> url j \<noteq> []"
  by (induction js arbitrary: seen) (auto split: if_splits)

lemma keep_first_find:
  "j \<in> set (keep_first seen js) \<Longrightarrow> find (\<lambda>k. url k = url j) js = Some j"
proof (induction js arbitrary: seen)
  case Nil
  then show ?case by simp
next
  case (Cons a js)
  show ?case
  proof (cases "url a = [] \<or> url a \<in> seen")
    case True
    with Cons.prems have j: "j \<in> set (keep_first seen js)" by simp
    from keep_first_fresh [OF j] True have "url j \<noteq> url a" by auto
    with Cons.IH [OF j] show ?thesis by simp
  next
    case False
    show ?thesis
    proof (cases "j = a")
      case True
      then show ?thesis by simp
    next
      case ne: False
      with Cons.prems False have j: "j \<in> set (keep_first (insert (url a) seen) js)" by simp
      from keep_first_fresh [OF j] have "url j \<noteq> url a" by auto
      with Cons.IH [OF j] show ?thesis by simp
    qed
  qed
qed

lemma py_sort_desc_mset: "mset (py_sort_desc f xs) = mset xs"
  by (simp add: py_sort_desc_def)

lemma py_sort_desc_sorted: "sorted_wrt (\<lambda>a b. f b \<le> f a) (py_sort_desc f xs)"
proof -
  have "sorted (map f (sort_key f (rev xs)))" by (rule sorted_sort_key)
  then have "sorted_wrt (\<lambda>a b. f a \<le> f b) (sort_key f (rev xs))"
    by (simp add: sorted_map)
  then show ?thesis by (simp add: py_sort_desc_def sorted_wrt_rev)
qed

lemma py_sort_desc_stable:
  "filter (\<lambda>x. f x = k) (py_sort_desc f xs) = filter (\<lambda>x. f x = k) xs"
  by (simp add: py_sort_desc_def sort_key_stable flip: rev_filter)

lemma sort_key_of_le:
  "sort_key_of b \<le> sort_key_of a \<longleftrightarrow>
     sort_salary b < sort_salary a \<or>
     (sort_salary b = sort_salary a \<and>
      utc_micros (publication_date b) \<le> utc_micros (publication_date a))"
  by (auto simp add: sort_key_of_def less_eq_prod_def)

lemma sort_salary_absent_zero:
  "sort_salary j = (case average_salary j of None \<Rightarrow> 0 | Some a \<Rightarrow> a)"
  by (simp add: sort_salary_def split: option.splits)

lemma comparable_aware:
  assumes "\<forall>j\<in>set js. aware (publication_date j)"
  shows "comparable js"
  using assms by (simp add: comparable_def list_all_iff)


text \<open>The results of an adapter that \<open>sources\<close> selects (all three when \<open>sources\<close> is
  absent or empty).\<close>

definition selected :: "string list option \<Rightarrow> string \<Rightarrow> job list \<Rightarrow> job list" where
  "selected sources name js =
     (if name \<in> set (if truthy_list sources then the sources
                       else [''remoteok'', ''remotive'', ''adzuna'']) then js else [])"

lemma scrape_jobs_is_merge:
  assumes "fetch_remote_ok tc = Inr a" and "fetch_remotive tc = Inr b" and "fetch_adzuna tc = Inr c"
  shows "scrape_jobs g environ fetch_remote_ok fetch_remotive fetch_adzuna limit (Some tc) sources =
           merge_jobs (selected sources ''remoteok'' a @ selected sources ''remotive'' b
                       @ selected sources ''adzuna'' c) limit"
  using assms by (simp add: scrape_jobs_def add_source_def selected_def Let_def)

lemma keep_first_set: "set (keep_first seen js) \<subseteq> set js"
  by (induction js arbitrary: seen) auto

lemma merge_jobs_aware:
  assumes "\<forall>j\<in>set jobs. aware (publication_date j)" and "0 \<le> limit"
  shows "merge_jobs jobs limit =
           Inr (take (nat limit) (py_sort_desc sort_key_of (dedup_loop jobs {} [])))"
proof -
  have "set (dedup_loop jobs {} []) \<subseteq> set jobs"
    using keep_first_set [of "{}" jobs] by (simp add: dedup_loop_keep_first)
  with assms(1) have "comparable (dedup_loop jobs {} [])"
    by (intro comparable_aware) auto
  with assms(2) show ?thesis
    by (simp add: merge_jobs_def py_slice_to_def Let_def)
qed

text \<open>
  C6. Let \<open>jobs\<close> be the concatenation of the results of the selected adapters, all
  with aware publication dates (the only dates an adapter lets through), and let
  \<open>limit\<close> be non-negative. Then \<open>scrape_jobs\<close> returns the first \<open>limit\<close> records
  of a list \<open>s\<close> obtained from \<open>jobs\<close> in two steps. The deduplicated list \<open>u\<close> is
  a subsequence of \<open>jobs\<close> with pairwise different URLs, its URLs are the non-empty
  URLs of \<open>jobs\<close>, and each of its records is the first record of \<open>jobs\<close> with that
  URL. The sorted list \<open>s\<close> is a permutation of \<open>u\<close>, in descending order of the
  pair (average salary with absent read as 0, publication instant), and records with
  equal keys keep the order they have in \<open>u\<close>.
\<close>

theorem scrape_jobs_merge:
  assumes "fetch_remote_ok tc = Inr a" and "fetch_remotive tc = Inr b" and "fetch_adzuna tc = Inr c"
    and "jobs = selected sources ''remoteok'' a @ selected sources ''remotive'' b
                @ selected sources ''adzuna'' c"
    and "\<forall>j\<in>set jobs. aware (publication_date j)"
    and "0 \<le> limit"
    and "u = dedup_loop jobs {} []"
    and "s = py_sort_desc sort_key_of u"
  shows "scrape_jobs g environ fetch_remote_ok fetch_remotive fetch_adzuna limit (Some tc) sources
           = Inr (take (nat limit) s)
       \<and> subseq u jobs
       \<and> distinct (map url u)
       \<and> set (map url u) = set (map url jobs) - {[]}
       \<and> (\<forall>j\<in>set u. find (\<lambda>k. url k = url j) jobs = Some j)
       \<and> mset s = mset u
       \<and> sorted_wrt (\<lambda>x y. sort_salary y < sort_salary x \<or>
            (sort_salary y = sort_salary x \<and>
             utc_micros (publication_date y) \<le> utc_micros (publication_date x))) s
       \<and> (\<forall>k. filter (\<lambda>j. sort_key_of j = k) s = filter (\<lambda>j. sort_key_of j = k) u)
       \<and> (\<forall>j. sort_salary j = (case average_salary j of None \<Rightarrow> 0 | Some v \<Rightarrow> v))
       \<and> int (length (take (nat limit) s)) \<le> limit"
proof -
  have u: "u = keep_first {} jobs"
    using assms(7) by (simp add: dedup_loop_keep_first)
  have 1: "scrape_jobs g environ fetch_remote_ok fetch_remotive fetch_adzuna limit (Some tc) sources
           = Inr (take (nat limit) s)"
    using scrape_jobs_is_merge
        [of fetch_remote_ok tc a fetch_remotive b fetch_adzuna c g environ limit sources]
      merge_jobs_aware [OF assms(5,6)] assms(1-4,7,8) by simp
  have 2: "subseq u jobs" unfolding u by (rule keep_first_subseq)
  have 3: "distinct (map url u)" unfolding u by (rule keep_first_distinct)
  have 4: "set (map url u) = set (map url jobs) - {[]}"
    unfolding u using keep_first_urls [of "{}" jobs] by simp
  have 5: "\<forall>j\<in>set u. find (\<lambda>k. url k = url j) jobs = Some j"
    unfolding u using keep_first_find by blast
  have 6: "mset s = mset u" unfolding assms(8) by (rule py_sort_desc_mset)
  have 7: "sorted_wrt (\<lambda>x y. sort_salary y < sort_salary x \<or>
            (sort_salary y = sort_salary x \<and>
             utc_micros (publication_date y) \<le> utc_micros (publication_date x))) s"
    using py_sort_desc_sorted [of sort_key_of u] unfolding assms(8) sort_key_of_le .
  have 8: "\<forall>k. filter (\<lambda>j. sort_key_of j = k) s = filter (\<lambda>j. sort_key_of j = k) u"
    unfolding assms(8) by (simp add: py_sort_desc_stable)
  have 9: "\<forall>j. sort_salary j = (case average_salary j of None \<Rightarrow> 0 | Some v \<Rightarrow> v)"
    by (simp add: sort_salary_absent_zero)
  have 10: "int (length (take (nat limit) s)) \<le> limit"
    using assms(6) by simp
  from 1 2 3 4 5 6 7 8 9 10 show ?thesis by blast
qed

text \<open>Six records: a duplicate URL, an empty URL, an absent salary and a tie in salary
  broken by the later date.\<close>

definition job_A :: job where
  "job_A = sample_job \<lparr>micros = 738889 * day_us, utcoffset = Some 0\<rparr> (Some 40000) (Some 60000) ''https://a''"
definition job_B :: job where
  "job_B = sample_job \<lparr>micros = 738889 * day_us, utcoffset = Some 0\<rparr> None (Some 99000) []"
definition job_C :: job where
  "job_C = sample_job \<lparr>micros = 738890 * day_us, utcoffset = Some 0\<rparr> (Some 95000) (Some 95000) ''https://a''"
definition job_D :: job where
  "job_D = sample_job \<lparr>micros = 738889 * day_us, utcoffset = Some 0\<rparr> None None ''https://d''"
definition job_E :: job where
  "job_E = sample_job \<lparr>micros = 738889 * day_us, utcoffset = Some 0\<rparr> None (Some 90000) ''https://e''"
definition job_F :: job where
  "job_F = sample_job \<lparr>micros = 738890 * day_us, utcoffset = Some 3600000000\<rparr> None (Some 90000) ''https://f''"

theorem scrape_jobs_merge_witness:
  "scrape_jobs main_list_globals Map.empty (\<lambda>tc. Inr [job_A, job_B])
      (\<lambda>tc. Inr [job_C, job_D, job_E]) (\<lambda>tc. Inr [job_F]) 3 (Some []) None
   = Inr [job_F, job_E, job_A]"
proof -
  let ?jobs = "[job_A, job_B] @ [job_C, job_D, job_E] @ [job_F]"
  have sel: "?jobs = selected None ''remoteok'' [job_A, job_B]
               @ selected None ''remotive'' [job_C, job_D, job_E]
               @ selected None ''adzuna'' [job_F]"
    by (simp add: selected_def truthy_list_def)
  have aw: "\<forall>j\<in>set ?jobs. aware (publication_date j)"
    by (simp add: job_A_def job_B_def job_C_def job_D_def job_E_def job_F_def
        sample_job_def aware_def)
  have lim: "(0::int) \<le> 3" by simp
  have ev: "take (nat 3) (py_sort_desc sort_key_of (dedup_loop ?jobs {} []))
              = [job_F, job_E, job_A]"
    by code_simp
  have "scrape_jobs main_list_globals Map.empty (\<lambda>tc. Inr [job_A, job_B])
      (\<lambda>tc. Inr [job_C, job_D, job_E]) (\<lambda>tc. Inr [job_F]) 3 (Some []) None
     = Inr (take (nat 3) (py_sort_desc sort_key_of (dedup_loop ?jobs {} [])))"
    by (rule scrape_jobs_merge
      [of "\<lambda>tc. Inr [job_A, job_B]" "[]" "[job_A, job_B]"
          "\<lambda>tc. Inr [job_C, job_D, job_E]" "[job_C, job_D, job_E]"
          "\<lambda>tc. Inr [job_F]" "[job_F]" ?jobs None 3
          "dedup_loop ?jobs {} []"
          "py_sort_desc sort_key_of (dedup_loop ?jobs {} [])"
          main_list_globals Map.empty,
       OF refl refl refl sel aw lim refl refl, THEN conjunct1])
  then show ?thesis by (simp only: ev)
qed

subsection \<open>The salary parser of the search feed\<close>

text \<open>Every group the expression matches is a number \<open>float\<close> accepts once its commas
  are removed: the parser never raises.\<close>

lemma is_digit_not_comma: "is_digit c \<Longrightarrow> c \<noteq> CHR '',''"
  by (auto simp add: is_digit_def)

lemma is_digit_not_dot: "is_digit c \<Longrightarrow> c \<noteq> CHR ''.''"
  by (auto simp add: is_digit_def)

lemma remove_commas_digits:
  "list_all is_digit (remove_char CHR '','' (takeWhile digit_or_comma cs))"
proof -
  have "\<forall>x\<in>set (takeWhile digit_or_comma cs). digit_or_comma x"
    by (auto dest: set_takeWhileD)
  then show ?thesis
    by (auto simp add: remove_char_def list_all_iff digit_or_comma_def)
qed

lemma remove_char_digits: "list_all is_digit ds \<Longrightarrow> remove_char CHR '','' ds = ds"
  by (induction ds) (auto simp add: remove_char_def is_digit_not_comma)

lemma takeWhile_digits: "list_all is_digit (takeWhile is_digit r)"
  by (auto simp add: list_all_iff dest: set_takeWhileD)

lemma py_float_digits:
  assumes "list_all is_digit ds" and "ds \<noteq> []" and "list_all is_digit b"
  shows "py_float (ds @ b) \<noteq> None" and "py_float (ds @ ''.'' @ b) \<noteq> None"
proof -
  have all: "list_all is_digit (ds @ b)" using assms by simp
  then have tw: "takeWhile is_digit (ds @ b) = ds @ b" and dw: "dropWhile is_digit (ds @ b) = []"
    by (simp_all add: list_all_iff)
  have "py_float (ds @ b) = Some (real (dec_value (ds @ b)))"
    unfolding py_float_def Let_def tw dw using assms(2) by simp
  then show "py_float (ds @ b) \<noteq> None" by simp
  have tw2: "takeWhile is_digit (ds @ ''.'' @ b) = ds"
    and dw2: "dropWhile is_digit (ds @ ''.'' @ b) = CHR ''.'' # b"
    using assms(1) is_digit_not_dot
    by (auto simp add: list_all_iff takeWhile_append dropWhile_append)
  have "py_float (ds @ ''.'' @ b) =
          Some (real (dec_value ds) + real (dec_value b) / 10 ^ length b)"
    unfolding py_float_def Let_def tw2 dw2 using assms(2,3) by simp
  then show "py_float (ds @ ''.'' @ b) \<noteq> None" by simp
qed

definition token_ok :: "string \<Rightarrow> bool" where
  "token_ok m = (m \<noteq> [] \<and> py_float (remove_char CHR '','' m) \<noteq> None)"

lemma match_token_ok:
  assumes "is_digit c"
  shows "token_ok (c # fst (remotive_match cs))"
proof -
  let ?a = "takeWhile digit_or_comma cs"
  let ?r1 = "dropWhile digit_or_comma cs"
  let ?r2 = "if ?r1 \<noteq> [] \<and> hd ?r1 = CHR ''.'' then tl ?r1 else ?r1"
  let ?b = "takeWhile is_digit ?r2"
  let ?ds = "c # remove_char CHR '','' ?a"
  have ds: "list_all is_digit ?ds" "?ds \<noteq> []"
    using assms remove_commas_digits by simp_all
  have b: "list_all is_digit ?b" by (rule takeWhile_digits)
  have rb: "remove_char CHR '','' ?b = ?b" using b by (rule remove_char_digits)
  have rc: "remove_char CHR '','' (c # ?a @ d @ ?b) = ?ds @ remove_char CHR '','' d @ ?b" for d
    using assms rb by (simp add: remove_char_def is_digit_not_comma)
  show ?thesis
  proof (cases "?r1 \<noteq> [] \<and> hd ?r1 = CHR ''.''")
    case True
    then have "fst (remotive_match cs) = ?a @ ''.'' @ ?b"
      by (simp add: remotive_match_def Let_def)
    moreover have "py_float (?ds @ ''.'' @ ?b) \<noteq> None"
      using py_float_digits(2) [OF ds b] .
    ultimately show ?thesis
      using rc [of "''.''"] by (simp add: token_ok_def remove_char_def)
  next
    case False
    then have "fst (remotive_match cs) = ?a @ [] @ ?b"
      by (auto simp add: remotive_match_def Let_def)
    moreover have "py_float (?ds @ ?b) \<noteq> None"
      using py_float_digits(1) [OF ds b] .
    ultimately show ?thesis
      using rc [of "[]"] by (simp add: token_ok_def remove_char_def)
  qed
qed

lemma finditer_tokens_ok: "list_all (\<lambda>p. token_ok (fst p)) (finditer_remotive s)"
  by (induction s rule: finditer_remotive.induct) (auto simp add: match_token_ok)

text \<open>A match lies in the text where it was found: the group, then the \<open>k\<close> when it
  matched, then the text yet to scan.\<close>

lemma remotive_match_decomp:
  "cs = fst (remotive_match cs) @ (if fst (snd (remotive_match cs)) then ''k'' else [])
        @ snd (snd (remotive_match cs))"
proof -
  define a where "a = takeWhile digit_or_comma cs"
  define r1 where "r1 = dropWhile digit_or_comma cs"
  define dot where "dot = (if r1 \<noteq> [] \<and> hd r1 = CHR ''.'' then ''.'' else [])"
  define r2 where "r2 = (if r1 \<noteq> [] \<and> hd r1 = CHR ''.'' then tl r1 else r1)"
  define b where "b = takeWhile is_digit r2"
  define r3 where "r3 = dropWhile is_digit r2"
  define k where "k = (r3 \<noteq> [] \<and> hd r3 = CHR ''k'')"
  define r4 where "r4 = (if k then tl r3 else r3)"
  have m: "remotive_match cs = (a @ dot @ b, k, r4)"
    unfolding remotive_match_def Let_def a_def r1_def dot_def r2_def b_def r3_def k_def r4_def
    by (rule refl)
  have 1: "cs = a @ r1" by (simp add: a_def r1_def)
  have 2: "r1 = dot @ r2" by (cases r1) (simp_all add: dot_def r2_def)
  have 3: "r2 = b @ r3" by (simp add: b_def r3_def)
  have 4: "r3 = (if k then ''k'' else []) @ r4"
    by (cases r3) (simp_all add: k_def r4_def)
  have e: "cs = (a @ dot @ b) @ (if k then ''k'' else []) @ r4"
    by (subst 1, subst 2, subst 3, subst 4) simp
  show ?thesis unfolding m fst_conv snd_conv by (rule e)
qed

lemma finditer_occurrence:
  "(m, k) \<in> set (finditer_remotive s) \<Longrightarrow>
     \<exists>p r. s = p @ m @ (if k then ''k'' else []) @ r"
proof (induction s rule: finditer_remotive.induct)
  case 1
  then show ?case by simp
next
  case (2 c cs)
  show ?case
  proof (cases "is_digit c")
    case False
    with 2 obtain p r where "cs = p @ m @ (if k then ''k'' else []) @ r" by auto
    then have "c # cs = (c # p) @ m @ (if k then ''k'' else []) @ r" by simp
    then show ?thesis by blast
  next
    case True
    let ?g = "fst (remotive_match cs)"
    let ?k = "fst (snd (remotive_match cs))"
    let ?rest = "snd (snd (remotive_match cs))"
    have d: "cs = ?g @ (if ?k then ''k'' else []) @ ?rest" by (rule remotive_match_decomp)
    from 2 True consider "m = c # ?g \<and> k = ?k" | "(m, k) \<in> set (finditer_remotive ?rest)"
      by auto
    then show ?thesis
    proof cases
      case 1
      have "c # cs = [] @ (c # ?g) @ (if ?k then ''k'' else []) @ ?rest"
        using d by simp
      with 1 show ?thesis by blast
    next
      case 2
      with "2.IH"(1) True obtain p r where r: "?rest = p @ m @ (if k then ''k'' else []) @ r"
        by auto
      have "c # cs = (c # ?g @ (if ?k then ''k'' else []) @ p) @ m @ (if k then ''k'' else []) @ r"
        by (subst d, subst r) simp
      then show ?thesis by blast
    qed
  qed
qed

lemma finditer_k_contains:
  assumes "(m, True) \<in> set (finditer_remotive s)"
  shows "contains s (m @ ''k'')"
proof -
  from finditer_occurrence [OF assms] obtain p r where "s = p @ (m @ ''k'') @ r" by auto
  then show ?thesis by (auto simp add: contains_def sublist_def)
qed

definition scaled :: "string \<Rightarrow> string \<Rightarrow> real" where
  "scaled low m =
     the (py_float (remove_char CHR '','' m)) * (if contains low (m @ ''k'') then 1000 else 1)"

lemma remotive_nums_ok:
  assumes "list_all token_ok ms"
  shows "remotive_nums low ms nums = Inr (nums @ map (scaled low) ms)"
  using assms
  by (induction ms arbitrary: nums) (auto simp add: token_ok_def scaled_def)

lemma bounds_of_cases:
  "bounds_of nums =
     (case nums of [] \<Rightarrow> (None, None) | [x] \<Rightarrow> (None, Some x) | x # y # zs \<Rightarrow> (Some x, Some y))"
  by (auto simp add: bounds_of_def split: list.splits)

lemma findall_tokens_ok: "list_all token_ok (findall_remotive s)"
  using finditer_tokens_ok [of s] by (simp add: findall_remotive_def list_all_iff)

lemma remotive_parse_salary_eq:
  "remotive_parse_salary text =
     Inr (bounds_of (map (scaled (lower text)) (findall_remotive (lower text))))"
  using remotive_nums_ok [OF findall_tokens_ok, of "lower text" "lower text" "[]"]
  by (simp add: remotive_parse_salary_def Let_def bounds_of_def)


text \<open>
  The parser as C4 words it: a number is multiplied by 1000 exactly when its own
  occurrence is followed by \<open>k\<close>.
\<close>

definition claimed_parse_salary :: "string \<Rightarrow> real option \<times> real option" where
  "claimed_parse_salary text =
     (case map (\<lambda>p. the (py_float (remove_char CHR '','' (fst p))) * (if snd p then 1000 else 1))
             (finditer_remotive (lower text)) of
        [] \<Rightarrow> (None, None)
      | [x] \<Rightarrow> (None, Some x)
      | x # y # zs \<Rightarrow> (Some x, Some y))"

text \<open>
  What the parser computes, for every text: it returns, without raising, the bounds built
  from the numbers of the groups found in the lower-cased text (none gives (absent,
  absent), one gives (absent, it), two or more give (first, second)). The factor 1000 is
  applied to a number when its group followed by \<open>k\<close> occurs somewhere in the
  lower-cased text; a number whose own occurrence is followed by \<open>k\<close> is among these.
\<close>

lemma remotive_parse_salary_computes:
  "remotive_parse_salary text =
     Inr (case map (\<lambda>m. the (py_float (remove_char CHR '','' m)) *
                        (if contains (lower text) (m @ ''k'') then 1000 else 1))
                (findall_remotive (lower text)) of
            [] \<Rightarrow> (None, None)
          | [x] \<Rightarrow> (None, Some x)
          | x # y # zs \<Rightarrow> (Some x, Some y))
   \<and> list_all (\<lambda>m. py_float (remove_char CHR '','' m) \<noteq> None) (findall_remotive (lower text))
   \<and> list_all (\<lambda>p. snd p \<longrightarrow> contains (lower text) (fst p @ ''k''))
        (finditer_remotive (lower text))
   \<and> findall_remotive (lower text) = map fst (finditer_remotive (lower text))"
proof -
  have 1: "remotive_parse_salary text =
     Inr (case map (\<lambda>m. the (py_float (remove_char CHR '','' m)) *
                        (if contains (lower text) (m @ ''k'') then 1000 else 1))
                (findall_remotive (lower text)) of
            [] \<Rightarrow> (None, None)
          | [x] \<Rightarrow> (None, Some x)
          | x # y # zs \<Rightarrow> (Some x, Some y))"
    by (simp only: remotive_parse_salary_eq bounds_of_cases scaled_def [abs_def])
  have 2: "list_all (\<lambda>m. py_float (remove_char CHR '','' m) \<noteq> None)
             (findall_remotive (lower text))"
    using findall_tokens_ok [of "lower text"] by (simp add: list_all_iff token_ok_def)
  have 3: "list_all (\<lambda>p. snd p \<longrightarrow> contains (lower text) (fst p @ ''k''))
             (finditer_remotive (lower text))"
    using finditer_k_contains [of _ "lower text"] by (auto simp add: list_all_iff)
  have 4: "findall_remotive (lower text) = map fst (finditer_remotive (lower text))"
    by (simp add: findall_remotive_def)
  from 1 2 3 4 show ?thesis by blast
qed

text \<open>The two examples of the claim evaluate as it says.\<close>

lemma remotive_parse_salary_examples:
  "remotive_parse_salary ''100k-150k'' = Inr (Some 100000, Some 150000)
   \<and> remotive_parse_salary ''60k'' = Inr (None, Some 60000)"
proof -
  have a: "(case map (\<lambda>m. the (py_float (remove_char CHR '','' m)) *
                        (if contains (lower ''100k-150k'') (m @ ''k'') then 1000 else 1))
                (findall_remotive (lower ''100k-150k'')) of
            [] \<Rightarrow> (None, None)
          | [x] \<Rightarrow> (None, Some x)
          | x # y # zs \<Rightarrow> (Some x, Some y)) = (Some 100000, Some 150000)"
    by code_simp
  have b: "(case map (\<lambda>m. the (py_float (remove_char CHR '','' m)) *
                        (if contains (lower ''60k'') (m @ ''k'') then 1000 else 1))
                (findall_remotive (lower ''60k'')) of
            [] \<Rightarrow> (None, None)
          | [x] \<Rightarrow> (None, Some x)
          | x # y # zs \<Rightarrow> (Some x, Some y)) = (None, Some 60000)"
    by code_simp
  from remotive_parse_salary_computes [of "''100k-150k''", THEN conjunct1]
       remotive_parse_salary_computes [of "''60k''", THEN conjunct1]
  show ?thesis by (simp only: a b)
qed

text \<open>
  C4. The claim asks that a number is multiplied by 1000 exactly when its own occurrence
  is followed by \<open>k\<close>, as the comment in the source says (``if 'k' was present in the
  original text after the number''). The source tests this with a search of the whole
  lower-cased text for the group followed by \<open>k\<close>, which also succeeds at another
  occurrence of the same digits. In \<open>5 to 15k\<close> the first number is followed by a space,
  yet \<open>5k\<close> occurs inside \<open>15k\<close> and the parser returns 5000 where the claim gives 5;
  in \<open>3 yrs, 53k\<close> the 3 becomes 3000; in \<open>100-100k\<close> the first 100 is followed by a
  hyphen and is multiplied because the second one is followed by \<open>k\<close>.
\<close>

theorem remotive_parse_salary_other_occurrence:
  "remotive_parse_salary ''5 to 15k'' = Inr (Some 5000, Some 15000)
   \<and> claimed_parse_salary ''5 to 15k'' = (Some 5, Some 15000)
   \<and> finditer_remotive (lower ''5 to 15k'') = [(''5'', False), (''15'', True)]
   \<and> remotive_parse_salary ''3 yrs, 53k'' = Inr (Some 3000, Some 53000)
   \<and> claimed_parse_salary ''3 yrs, 53k'' = (Some 3, Some 53000)
   \<and> remotive_parse_salary ''100-100k'' = Inr (Some 100000, Some 100000)
   \<and> claimed_parse_salary ''100-100k'' = (Some 100, Some 100000)"
  by code_simp

subsection \<open>Importing main.py\<close>

text \<open>
  A loaded module is well-behaved when loading it raised nothing but \<open>ImportError\<close>;
  statements over well-behaved modules raise nothing else. \<open>definitions_of\<close> lists the
  names a module defines itself (\<open>def\<close>, \<open>class\<close>, assignments), as opposed to the
  names it imports.
\<close>

definition ok_loaded :: "py_exc + string list \<Rightarrow> bool" where
  "ok_loaded m = (case m of Inl e \<Rightarrow> e = ImportError | Inr names \<Rightarrow> True)"

fun ok_simple :: "simple_stmt \<Rightarrow> bool" where
  "ok_simple (Import m alias) = ok_loaded m"
| "ok_simple (FromImport m names) = ok_loaded m"
| "ok_simple (Bind n) = True"

fun ok_stmt :: "stmt \<Rightarrow> bool" where
  "ok_stmt (Simple s) = ok_simple s"
| "ok_stmt (TryExceptImportError body handler) = (list_all ok_simple body \<and> list_all ok_simple handler)"

definition import_error_or_none :: "py_exc option \<Rightarrow> bool" where
  "import_error_or_none r = (r = None \<or> r = Some ImportError)"

fun definitions_of :: "stmt \<Rightarrow> string list" where
  "definitions_of (Simple (Bind n)) = [n]"
| "definitions_of (Simple s) = []"
| "definitions_of (TryExceptImportError body handler) = []"

lemma import_names_exc: "import_error_or_none (snd (import_names exported names ns))"
  by (induction names arbitrary: ns) (auto simp add: import_error_or_none_def)

lemma exec_simple_exc: "ok_simple s \<Longrightarrow> import_error_or_none (snd (exec_simple s ns))"
  using import_names_exc
  by (cases s) (auto simp add: ok_loaded_def import_error_or_none_def split: sum.splits)

lemma exec_simples_exc:
  "list_all ok_simple ss \<Longrightarrow> import_error_or_none (snd (exec_simples ss ns))"
proof (induction ss arbitrary: ns)
  case Nil
  then show ?case by (simp add: import_error_or_none_def)
next
  case (Cons s ss)
  then have "import_error_or_none (snd (exec_simple s ns))" by (simp add: exec_simple_exc)
  with Cons show ?case
    by (cases "exec_simple s ns") (auto simp add: import_error_or_none_def split: option.splits)
qed

lemma exec_stmt_exc: "ok_stmt s \<Longrightarrow> import_error_or_none (snd (exec_stmt s ns))"
proof (cases s)
  case (Simple x)
  assume "ok_stmt s"
  with Simple show ?thesis by (simp add: exec_simple_exc)
next
  case (TryExceptImportError body handler)
  assume "ok_stmt s"
  with TryExceptImportError have h: "list_all ok_simple handler"
    and b: "list_all ok_simple body" by simp_all
  obtain ns' r where e: "exec_simples body ns = (ns', r)" by (cases "exec_simples body ns")
  from exec_simples_exc [OF b, of ns] e have "r = None \<or> r = Some ImportError"
    by (simp add: import_error_or_none_def)
  then show ?thesis
    using exec_simples_exc [OF h, of ns'] TryExceptImportError e
    by (auto simp add: import_error_or_none_def)
qed

lemma exec_stmts_exc:
  "list_all ok_stmt ss \<Longrightarrow> import_error_or_none (snd (exec_stmts ss ns))"
proof (induction ss arbitrary: ns)
  case Nil
  then show ?case by (simp add: import_error_or_none_def)
next
  case (Cons s ss)
  then have "import_error_or_none (snd (exec_stmt s ns))" by (simp add: exec_stmt_exc)
  with Cons show ?case
    by (cases "exec_stmt s ns") (auto simp add: import_error_or_none_def split: option.splits)
qed

lemma load_module_ok: "list_all ok_stmt ss \<Longrightarrow> ok_loaded (load_module ss)"
  using exec_stmts_exc [of ss "[]"]
  by (cases "exec_stmts ss []")
     (auto simp add: load_module_def ok_loaded_def import_error_or_none_def split: option.splits)

lemma external_ok: "ok_loaded (external ext m)"
  by (simp add: external_def ok_loaded_def split: option.splits)

lemma utils_py_ok: "list_all ok_stmt (utils_py ext)"
  by (simp add: utils_py_def external_ok)

lemma firebase_py_ok: "list_all ok_stmt (firebase_py ext)"
  by (simp add: firebase_py_def external_ok load_module_ok utils_py_ok)

lemma main_py_head_ok: "list_all ok_stmt (main_py_head ext)"
  by (simp add: main_py_head_def external_ok)

lemma import_names_binds:
  "set (fst (import_names exported names ns)) \<subseteq> set ns \<union> set (map snd names)"
proof (induction names arbitrary: ns)
  case Nil
  then show ?case by simp
next
  case (Cons na names)
  show ?case
    using Cons.IH [of "snd na # ns"] by auto
qed

lemma exec_simple_binds:
  "set (fst (exec_simple s ns)) \<subseteq> set ns \<union> set (binds_simple s)"
  using import_names_binds by (cases s) (auto split: sum.splits)

lemma exec_simples_binds:
  "set (fst (exec_simples ss ns)) \<subseteq> set ns \<union> set (concat (map binds_simple ss))"
proof (induction ss arbitrary: ns)
  case Nil
  then show ?case by simp
next
  case (Cons s ss)
  obtain ns' r where e: "exec_simple s ns = (ns', r)" by (cases "exec_simple s ns")
  with exec_simple_binds [of s ns] have "set ns' \<subseteq> set ns \<union> set (binds_simple s)" by simp
  with Cons [of ns'] e show ?case by (cases r) auto
qed

lemma exec_stmt_binds: "set (fst (exec_stmt s ns)) \<subseteq> set ns \<union> set (binds s)"
proof (cases s)
  case (Simple x)
  then show ?thesis using exec_simple_binds [of x ns] by simp
next
  case (TryExceptImportError body handler)
  obtain ns' r where e: "exec_simples body ns = (ns', r)" by (cases "exec_simples body ns")
  with exec_simples_binds [of body ns]
  have b: "set ns' \<subseteq> set ns \<union> set (concat (map binds_simple body))" by simp
  from exec_simples_binds [of handler ns'] b
  have "set (fst (exec_simples handler ns'))
          \<subseteq> set ns \<union> set (concat (map binds_simple (body @ handler)))" by auto
  with b e TryExceptImportError show ?thesis by (cases r) auto
qed

lemma exec_stmts_binds:
  "set (fst (exec_stmts ss ns)) \<subseteq> set ns \<union> set (concat (map binds ss))"
proof (induction ss arbitrary: ns)
  case Nil
  then show ?case by simp
next
  case (Cons s ss)
  obtain ns' r where e: "exec_stmt s ns = (ns', r)" by (cases "exec_stmt s ns")
  with exec_stmt_binds [of s ns] have "set ns' \<subseteq> set ns \<union> set (binds s)" by simp
  with Cons [of ns'] e show ?case by (cases r) auto
qed

lemma load_module_binds:
  "load_module ss = Inr ns \<Longrightarrow> set ns \<subseteq> set (concat (map binds ss))"
  using exec_stmts_binds [of ss "[]"]
  by (cases "exec_stmts ss []") (auto simp add: load_module_def split: option.splits)

lemma exec_stmts_append:
  "exec_stmts (xs @ ys) ns =
     (case exec_stmts xs ns of (ns', None) \<Rightarrow> exec_stmts ys ns' | (ns', Some e) \<Rightarrow> (ns', Some e))"
  by (induction xs arbitrary: ns) (auto split: prod.splits option.splits)

lemma firebase_has_no_upsert_jobs:
  "load_module (firebase_py ext) = Inr ns \<Longrightarrow> ''upsert_jobs'' \<notin> set ns"
proof -
  assume "load_module (firebase_py ext) = Inr ns"
  from load_module_binds [OF this]
  have "set ns \<subseteq> set (concat (map binds (firebase_py ext)))" .
  moreover have "''upsert_jobs'' \<notin> set (concat (map binds (firebase_py ext)))"
    by (simp add: firebase_py_def same_def)
  ultimately show ?thesis by blast
qed

lemma firebase_import_fails:
  "snd (exec_stmt (Simple (FromImport (load_module (firebase_py ext))
          (same [''init_firebase'', ''upsert_jobs'']))) ns) = Some ImportError
   \<and> set (fst (exec_stmt (Simple (FromImport (load_module (firebase_py ext))
          (same [''init_firebase'', ''upsert_jobs'']))) ns)) \<subseteq> set ns \<union> {''init_firebase''}"
proof (cases "load_module (firebase_py ext)")
  case (Inl e)
  with load_module_ok [OF firebase_py_ok, of ext] show ?thesis
    by (auto simp add: ok_loaded_def)
next
  case (Inr exported)
  with firebase_has_no_upsert_jobs [OF Inr] show ?thesis
    by (auto simp add: same_def)
qed


lemma main_py_exec:
  "snd (exec_stmts (main_py ext) []) = Some ImportError
   \<and> set (fst (exec_stmts (main_py ext) []))
       \<subseteq> set (concat (map binds (main_py_head ext))) \<union> {''init_firebase''}"
proof -
  let ?imp = "Simple (FromImport (load_module (firebase_py ext))
                (same [''init_firebase'', ''upsert_jobs'']))"
  obtain ns1 r1 where h: "exec_stmts (main_py_head ext) [] = (ns1, r1)"
    by (cases "exec_stmts (main_py_head ext) []")
  from exec_stmts_exc [OF main_py_head_ok, of ext "[]"] h
  have r1: "r1 = None \<or> r1 = Some ImportError" by (simp add: import_error_or_none_def)
  from exec_stmts_binds [of "main_py_head ext" "[]"] h
  have ns1: "set ns1 \<subseteq> set (concat (map binds (main_py_head ext)))" by simp
  obtain ns2 r2 where i: "exec_stmt ?imp ns1 = (ns2, r2)" by (cases "exec_stmt ?imp ns1")
  from firebase_import_fails [of ext ns1] i
  have r2: "r2 = Some ImportError" and ns2: "set ns2 \<subseteq> set ns1 \<union> {''init_firebase''}"
    by simp_all
  have e: "exec_stmts (main_py ext) [] = (if r1 = None then (ns2, r2) else (ns1, r1))"
    using h i r1 r2
    by (auto simp add: main_py_def exec_stmts_append simp del: exec_stmt.simps)
  show ?thesis
    using e r1 r2 ns1 ns2 by auto
qed

text \<open>
  C1. Whatever modules are installed, importing main.py raises \<open>ImportError\<close>: either
  an import before line 37 fails, or \<open>from .firebase import init_firebase, upsert_jobs\<close>
  does, because firebase.py (when it loads) binds \<open>upsert_jobs_batch\<close> and not
  \<open>upsert_jobs\<close>. At that point none of the functions of main.py is bound, so no call
  of \<open>scrape_jobs\<close>, \<open>run_pipeline\<close> or \<open>main_cli\<close> through the module can run; and
  no module of the repository defines the name \<open>upsert_jobs\<close> that \<open>run_pipeline\<close>
  calls.
\<close>

theorem main_import_fails:
  "load_module (main_py ext) = Inl ImportError
   \<and> list_all (\<lambda>n. n \<notin> set (fst (exec_stmts (main_py ext) [])))
        [''load_top_companies'', ''scrape_jobs'', ''save_jobs_to_csv'', ''run_pipeline'',
         ''schedule_pipeline'', ''main_cli'']
   \<and> ''upsert_jobs'' \<notin> set (concat (map definitions_of
        (utils_py ext @ firebase_py ext @ remote_ok_py ext @ remotive_py ext @ adzuna_py ext
         @ sources_init_py ext @ main_py ext)))
   \<and> ''upsert_jobs_batch'' \<in> set (concat (map definitions_of (firebase_py ext)))"
proof -
  obtain ns r where e: "exec_stmts (main_py ext) [] = (ns, r)"
    by (cases "exec_stmts (main_py ext) []")
  from main_py_exec [of ext] e
  have r: "r = Some ImportError"
    and ns: "set ns \<subseteq> set (concat (map binds (main_py_head ext))) \<union> {''init_firebase''}"
    by simp_all
  have 1: "load_module (main_py ext) = Inl ImportError"
    using e r by (simp add: load_module_def)
  have b: "list_all (\<lambda>n. n \<notin> set (concat (map binds (main_py_head ext))) \<union> {''init_firebase''})
        [''load_top_companies'', ''scrape_jobs'', ''save_jobs_to_csv'', ''run_pipeline'',
         ''schedule_pipeline'', ''main_cli'']"
    by (simp add: main_py_head_def same_def)
  have 2: "list_all (\<lambda>n. n \<notin> set (fst (exec_stmts (main_py ext) [])))
        [''load_top_companies'', ''scrape_jobs'', ''save_jobs_to_csv'', ''run_pipeline'',
         ''schedule_pipeline'', ''main_cli'']"
    using b ns e by (auto simp add: list_all_iff)
  have 3: "''upsert_jobs'' \<notin> set (concat (map definitions_of
        (utils_py ext @ firebase_py ext @ remote_ok_py ext @ remotive_py ext @ adzuna_py ext
         @ sources_init_py ext @ main_py ext)))"
    by (simp add: utils_py_def firebase_py_def remote_ok_py_def remotive_py_def adzuna_py_def
        adapter_py_def sources_init_py_def main_py_def main_py_head_def main_py_tail_def)
  have 4: "''upsert_jobs_batch'' \<in> set (concat (map definitions_of (firebase_py ext)))"
    by (simp add: firebase_py_def)
  from 1 2 3 4 show ?thesis by blast
qed

text \<open>With every outside module installed and offering the names imported from it,
  firebase.py and the adapters load, and main.py still fails.\<close>

definition sample_ext :: "string \<Rightarrow> string list option" where
  "sample_ext m =
     Some [''annotations'', ''dataclass'', ''List'', ''Optional'', ''Iterable'',
           ''get_localzone'', ''DefaultCredentialsError'', ''Client'', ''credentials'',
           ''firestore'', ''load_dotenv'']"

theorem main_import_fails_witness:
  "load_module (main_py sample_ext) = Inl ImportError
   \<and> load_module (firebase_py sample_ext) =
       Inr [''upsert_jobs_batch'', ''init_firebase'', ''LOGGER'', ''firestore'', ''credentials'',
            ''firebase_admin'', ''Job'', ''Client'', ''DefaultCredentialsError'', ''Optional'',
            ''Iterable'', ''os'', ''logging'', ''annotations'']
   \<and> load_module (sources_init_py sample_ext) =
       Inr [''__all__'', ''fetch_adzuna_jobs'', ''fetch_remotive_jobs'', ''fetch_remote_ok_jobs'']"
proof -
  have f: "load_module (firebase_py sample_ext) =
       Inr [''upsert_jobs_batch'', ''init_firebase'', ''LOGGER'', ''firestore'', ''credentials'',
            ''firebase_admin'', ''Job'', ''Client'', ''DefaultCredentialsError'', ''Optional'',
            ''Iterable'', ''os'', ''logging'', ''annotations'']"
    by code_simp
  have s: "load_module (sources_init_py sample_ext) =
       Inr [''__all__'', ''fetch_adzuna_jobs'', ''fetch_remotive_jobs'', ''fetch_remote_ok_jobs'']"
    by code_simp
  from main_import_fails [of sample_ext, THEN conjunct1] f s show ?thesis by (simp only: simp_thms)
qed

end
